theory Spec2Isabelle
  imports Main "HOL-Library.Sublist"
begin

section \<open>Python text primitives used by the randomizer\<close>

text \<open>
  Text is a list of 8-bit characters and is taken to be ASCII: \<open>str.strip\<close>,
  \<open>int\<close> and \<open>str\<close> are modelled on ASCII text. Python integers are
  unbounded (\<open>int\<close>); process identifiers are natural numbers.
\<close>

definition NL :: char where
  "NL = CHR 0x0A"

definition is_space :: "char \<Rightarrow> bool" where
  \<comment> \<open>\<open>str.isspace\<close> on ASCII: TAB, LF, VT, FF, CR, FS, GS, RS, US and the blank\<close>
  "is_space c = ((of_char c :: nat) \<in> {9, 10, 11, 12, 13, 28, 29, 30, 31, 32})"

definition strip :: "string \<Rightarrow> string" where
  \<comment> \<open>\<open>s.strip()\<close>: leading and trailing whitespace removed\<close>
  "strip s = rev (dropWhile is_space (rev (dropWhile is_space s)))"

definition is_digit :: "char \<Rightarrow> bool" where
  "is_digit c = (48 \<le> (of_char c :: nat) \<and> (of_char c :: nat) \<le> 57)"

definition digit_val :: "char \<Rightarrow> nat" where
  "digit_val c = of_char c - 48"

definition digit_char :: "nat \<Rightarrow> char" where
  "digit_char d = char_of (48 + d)"

fun str_nat :: "nat \<Rightarrow> string" where
  "str_nat n = (if n < 10 then [digit_char n] else str_nat (n div 10) @ [digit_char (n mod 10)])"

declare str_nat.simps [simp del]

definition str_int :: "int \<Rightarrow> string" where
  \<comment> \<open>\<open>str(i)\<close> for an integer\<close>
  "str_int i = (if i < 0 then CHR ''-'' # str_nat (nat (- i)) else str_nat (nat i))"

definition str_opt_int :: "int option \<Rightarrow> string" where
  \<comment> \<open>how an f-string renders a value of type \<open>Optional[int]\<close>\<close>
  "str_opt_int v = (case v of None \<Rightarrow> ''None'' | Some i \<Rightarrow> str_int i)"

section \<open>Exceptions\<close>

datatype exn_kind =
    RuntimeError | ValueError | JSONDecodeError | UnicodeDecodeError
  | OSError | FileNotFoundError | KeyError | TypeError | IndexError

datatype exn = Exn (kind: exn_kind) (message: string)

fun is_subclass :: "exn_kind \<Rightarrow> exn_kind \<Rightarrow> bool" where
  \<comment> \<open>the part of Python's exception hierarchy the handlers of the source rely on\<close>
  "is_subclass JSONDecodeError ValueError = True"
| "is_subclass UnicodeDecodeError ValueError = True"
| "is_subclass FileNotFoundError OSError = True"
| "is_subclass k k' = (k = k')"

definition caught :: "exn_kind list \<Rightarrow> exn \<Rightarrow> bool" where
  \<comment> \<open>\<open>except (K1, K2, ...)\<close> catches \<open>e\<close>\<close>
  "caught ks e = (\<exists>k \<in> set ks. is_subclass (kind e) k)"

text \<open>
  \<open>int(s)\<close> in base 10: an optional sign, then decimal digits, single underscores
  allowed between digits; anything else raises \<open>ValueError\<close>. (The interpreter's limit
  on the number of digits is not modelled.)
\<close>

fun parse_digits :: "nat \<Rightarrow> bool \<Rightarrow> string \<Rightarrow> nat option" where
  \<comment> \<open>accumulated value; whether the previous character was a digit; rest of the text\<close>
  "parse_digits acc prev [] = (if prev then Some acc else None)"
| "parse_digits acc prev (c # cs) =
     (if is_digit c then parse_digits (10 * acc + digit_val c) True cs
      else if c = CHR ''_'' \<and> prev then parse_digits acc False cs
      else None)"

definition py_int :: "string \<Rightarrow> exn + int" where
  "py_int s =
     (let t = strip s;
          r = (case t of
                 [] \<Rightarrow> None
               | c # cs \<Rightarrow>
                   if c = CHR ''+'' then map_option int (parse_digits 0 False cs)
                   else if c = CHR ''-'' then map_option (\<lambda>n. - int n) (parse_digits 0 False cs)
                   else map_option int (parse_digits 0 False t))
      in case r of
           None \<Rightarrow> Inl (Exn ValueError (''invalid literal for int() with base 10: '' @ s))
         | Some i \<Rightarrow> Inr i)"

section \<open>Files\<close>

text \<open>
  What \<open>Path.read_text\<close> finds in a file that exists: text, or bytes that do not decode
  (\<open>UnicodeDecodeError\<close>, a subclass of \<open>ValueError\<close>). Faults of the operating system
  beyond the content of the files (permissions, full disks) are outside the model: opening,
  locking and writing the program's own files succeed.
\<close>

datatype file_text = Text string | Undecodable

record lock_file =
  content :: file_text
  holder :: "nat option"  \<comment> \<open>the process that holds the exclusive \<open>flock\<close>, if any\<close>

text \<open>
  The history file. Only \<open>save_history\<close> writes it, as a JSON list of strings; a file
  that holds another JSON document is outside the model.
\<close>

datatype history_file =
    NoFile                  \<comment> \<open>\<open>HISTORY_FILE.exists()\<close> is false\<close>
  | BadBytes                \<comment> \<open>\<open>read_text\<close> raises \<open>UnicodeDecodeError\<close>\<close>
  | BadJson                 \<comment> \<open>\<open>json.loads\<close> raises \<open>JSONDecodeError\<close>\<close>
  | JsonList "string list"  \<comment> \<open>a JSON list of strings\<close>

section \<open>Data model\<close>

datatype RunMode = TRAIN | VALIDATE

fun mode_value :: "RunMode \<Rightarrow> string" where
  "mode_value TRAIN = ''train''"
| "mode_value VALIDATE = ''validate''"

datatype RunStatus = STARTED | WARMUP_COMPLETE | DETONATED | CLEANED | FAILED

fun status_value :: "RunStatus \<Rightarrow> string" where
  "status_value STARTED = ''started''"
| "status_value WARMUP_COMPLETE = ''warmup_complete''"
| "status_value DETONATED = ''detonated''"
| "status_value CLEANED = ''cleaned''"
| "status_value FAILED = ''failed''"

text \<open>The dataclass \<open>RunRecord\<close>; \<open>mode\<close> and \<open>status\<close> are plain strings in the source.\<close>

record RunRecord =
  run_id :: string
  technique :: string
  account :: string
  region :: string
  mode :: string
  tactic_filter :: "string option"
  started_at :: string
  status :: string
  warmup_at :: "string option"
  detonated_at :: "string option"
  cleaned_at :: "string option"
  error :: "string option"

datatype run_file = Stored RunRecord | Corrupt

text \<open>An entry of the technique catalog: the dict with the keys \<open>id\<close> and \<open>name\<close>.\<close>

record technique_entry =
  tech_id :: string
  tech_name :: string

text \<open>The parsed arguments of the \<open>run\<close> subcommand.\<close>

record run_args =
  arg_account :: string
  arg_region :: string
  arg_mode :: string
  arg_tactic :: "string option"
  dwell_min :: int
  dwell_max :: int
  allow_repeat :: bool
  avoid_last_n :: int

section \<open>The environment of a process and the persistent state\<close>

record completed_process =
  returncode :: int
  stdout :: string
  stderr :: string

datatype proc_outcome =
    Completed completed_process
  | LaunchError string  \<comment> \<open>\<open>subprocess.run\<close> itself raises \<open>OSError\<close> (no such executable, ...)\<close>

type_synonym environ = "(string \<times> string) list"

text \<open>
  Everything a process reads from outside and cannot control. The identity query and the
  catalog query are external collaborators: what \<open>get_aws_identity()\<close> and
  \<open>get_techniques(tactic)\<close> return or raise is given. The random source is one draw per
  use: \<open>random.choice\<close> picks the element at the draw modulo the length, so every element
  can be picked and nothing else can.
\<close>

record world =
  getpid :: nat
  now_iso_at :: "nat \<Rightarrow> string"    \<comment> \<open>the ISO text of the \<open>n\<close>-th reading of the clock\<close>
  now_stamp_at :: "nat \<Rightarrow> string"  \<comment> \<open>the same reading formatted \<open>%Y%m%dT%H%M%SZ\<close>\<close>
  urandom_hex :: string              \<comment> \<open>\<open>os.urandom(4).hex()\<close>\<close>
  aws_identity :: "exn + (string \<times> string)"
  techniques_of :: "string option \<Rightarrow> exn + technique_entry list"
  subprocess_run :: "string list \<Rightarrow> environ \<Rightarrow> proc_outcome"
  choice_draw :: nat
  randint_draw :: nat

datatype stream = Stdout | Stderr

datatype effect =
    Print stream string
  | Exec "string list" environ
  | Sleep int
  | Save RunRecord
  | WriteHistory "string list"

text \<open>
  The files of the program, the number of clock readings taken so far, and the log of
  the effects performed, oldest first.
\<close>

record state =
  lock :: "lock_file option"
  runs :: "string \<Rightarrow> run_file option"
  history :: history_file
  clock :: nat
  trace :: "effect list"

definition emit :: "effect \<Rightarrow> state \<Rightarrow> state" where
  "emit e s = s\<lparr>trace := trace s @ [e]\<rparr>"

definition print :: "stream \<Rightarrow> string \<Rightarrow> state \<Rightarrow> state" where
  "print st line s = emit (Print st line) s"

section \<open>RunRecord.save and RunRecord.load\<close>

definition save :: "RunRecord \<Rightarrow> state \<Rightarrow> state" where
  "save r s = emit (Save r) (s\<lparr>runs := (runs s)(run_id r \<mapsto> Stored r)\<rparr>)"

definition load :: "string \<Rightarrow> state \<Rightarrow> exn + RunRecord" where
  "load rid s =
     (case runs s rid of
        None \<Rightarrow> Inl (Exn FileNotFoundError (''Run '' @ rid @ '' not found''))
      | Some Corrupt \<Rightarrow> Inl (Exn JSONDecodeError ''Expecting value'')
      | Some (Stored r) \<Rightarrow> Inr r)"

section \<open>LockManager\<close>

definition pid_line :: "nat \<Rightarrow> string" where
  \<comment> \<open>what \<open>acquire\<close> writes into the lock file\<close>
  "pid_line p = str_nat p @ [NL]"

definition acquire :: "world \<Rightarrow> state \<Rightarrow> bool \<times> state" where
  \<comment> \<open>the result is also whether \<open>lock_fd\<close> is set afterwards\<close>
  "acquire w s =
     (let f = (case lock s of None \<Rightarrow> \<lparr>content = Text [], holder = None\<rparr> | Some f \<Rightarrow> f)
      in if holder f = None
         then (True, s\<lparr>lock := Some \<lparr>content = Text (pid_line (getpid w)), holder = Some (getpid w)\<rparr>\<rparr>)
         else (False, s\<lparr>lock := Some f\<rparr>))"

definition release :: "world \<Rightarrow> bool \<Rightarrow> state \<Rightarrow> state" where
  \<comment> \<open>the flag is \<open>lock_fd is not None\<close>\<close>
  "release w has_fd s =
     (if has_fd then
        (case lock s of
           None \<Rightarrow> s
         | Some f \<Rightarrow> if holder f = Some (getpid w) then s\<lparr>lock := Some (f\<lparr>holder := None\<rparr>)\<rparr> else s)
      else s)"

definition read_lock_text :: "state \<Rightarrow> exn + string" where
  "read_lock_text s =
     (case lock s of
        None \<Rightarrow> Inl (Exn FileNotFoundError ''No such file or directory'')
      | Some f \<Rightarrow>
          (case content f of
             Undecodable \<Rightarrow> Inl (Exn UnicodeDecodeError ''invalid start byte'')
           | Text t \<Rightarrow> Inr t))"

definition get_holder_pid :: "state \<Rightarrow> exn + int option" where
  "get_holder_pid s =
     (let body =
        (case read_lock_text s of
           Inl e \<Rightarrow> Inl e
         | Inr t \<Rightarrow>
             (let c = strip t
              in if c = [] then Inr None
                 else (case py_int c of Inl e \<Rightarrow> Inl e | Inr i \<Rightarrow> Inr (Some i))))
      in case body of
           Inl e \<Rightarrow> if caught [FileNotFoundError, ValueError] e then Inr None else Inl e
         | Inr v \<Rightarrow> Inr v)"

section \<open>External commands\<close>

fun join_words :: "string list \<Rightarrow> string" where
  \<comment> \<open>\<open>' '.join(cmd)\<close>\<close>
  "join_words [] = []"
| "join_words [x] = x"
| "join_words (x # y # zs) = x @ '' '' @ join_words (y # zs)"

definition run_cmd ::
  "world \<Rightarrow> string list \<Rightarrow> bool \<Rightarrow> environ \<Rightarrow> state \<Rightarrow> (exn + completed_process) \<times> state" where
  "run_cmd w cmd check env s =
     (let s1 = emit (Exec cmd env) s
      in case subprocess_run w cmd env of
           LaunchError m \<Rightarrow> (Inl (Exn OSError m), s1)
         | Completed result \<Rightarrow>
             if check \<and> returncode result \<noteq> 0
             then (Inl (Exn RuntimeError
                     (''Command failed: '' @ join_words cmd @ [NL] @ ''stderr: '' @ stderr result)), s1)
             else (Inr result, s1))"

section \<open>History store\<close>

definition last_n :: "'a list \<Rightarrow> int \<Rightarrow> 'a list" where
  \<comment> \<open>the slice \<open>xs[-n:]\<close>\<close>
  "last_n xs n = (if 0 < n then drop (length xs - nat n) xs else drop (nat (- n)) xs)"

definition read_history :: "state \<Rightarrow> exn + string list" where
  \<comment> \<open>\<open>json.loads(HISTORY_FILE.read_text())\<close>\<close>
  "read_history s =
     (case history s of
        NoFile \<Rightarrow> Inl (Exn FileNotFoundError ''No such file or directory'')
      | BadBytes \<Rightarrow> Inl (Exn UnicodeDecodeError ''invalid start byte'')
      | BadJson \<Rightarrow> Inl (Exn JSONDecodeError ''Expecting value'')
      | JsonList h \<Rightarrow> Inr h)"

definition load_history :: "state \<Rightarrow> exn + string list" where
  "load_history s =
     (if history s = NoFile then Inr []
      else (case read_history s of
              Inl e \<Rightarrow> if caught [JSONDecodeError, KeyError] e then Inr [] else Inl e
            | Inr h \<Rightarrow> Inr h))"

definition save_history :: "string list \<Rightarrow> int \<Rightarrow> state \<Rightarrow> state" where
  "save_history h max_size s =
     (let h' = last_n h max_size
      in emit (WriteHistory h') (s\<lparr>history := JsonList h'\<rparr>))"

section \<open>Technique selector\<close>

definition choice :: "nat \<Rightarrow> 'a list \<Rightarrow> exn + 'a" where
  \<comment> \<open>\<open>random.choice(xs)\<close> with the draw \<open>r\<close>\<close>
  "choice r xs =
     (if xs = [] then Inl (Exn IndexError ''Cannot choose from an empty sequence'')
      else Inr (xs ! (r mod length xs)))"

definition select_technique ::
  "world \<Rightarrow> technique_entry list \<Rightarrow> bool \<Rightarrow> int \<Rightarrow> state \<Rightarrow> exn + technique_entry" where
  "select_technique w techniques avoid_recent recent_count s =
     (if techniques = [] then Inl (Exn ValueError ''No techniques available'')
      else if avoid_recent then
        (case load_history s of
           Inl e \<Rightarrow> Inl e
         | Inr h \<Rightarrow>
             (let recent = set (last_n h recent_count);
                  candidates = filter (\<lambda>t. tech_id t \<notin> recent) techniques
              in choice (choice_draw w) (if candidates = [] then techniques else candidates)))
      else choice (choice_draw w) techniques)"

section \<open>Clock and run identifiers\<close>

definition now_iso :: "world \<Rightarrow> state \<Rightarrow> string \<times> state" where
  "now_iso w s = (now_iso_at w (clock s), s\<lparr>clock := Suc (clock s)\<rparr>)"

definition generate_run_id :: "world \<Rightarrow> state \<Rightarrow> string \<times> state" where
  "generate_run_id w s =
     (now_stamp_at w (clock s) @ ''-'' @ urandom_hex w, s\<lparr>clock := Suc (clock s)\<rparr>)"

definition do_run_id :: "world \<Rightarrow> state \<Rightarrow> string \<times> state" where
  \<comment> \<open>the minimal script \<open>randomize.py\<close>, \<open>do_run\<close>: the \<open>run_id\<close> is the timestamp\<close>
  "do_run_id w s = (now_stamp_at w (clock s), s\<lparr>clock := Suc (clock s)\<rparr>)"

section \<open>The run command\<close>

text \<open>
  How a block of statements is left: by \<open>return\<close>, or by an exception. A block that
  runs to its end yields \<open>None\<close> and the next statement follows.
\<close>

datatype outcome = Return int | Raise exn

definition region_env :: "string \<Rightarrow> environ" where
  "region_env r = [(''AWS_DEFAULT_REGION'', r), (''AWS_REGION'', r)]"

definition truthy :: "string option \<Rightarrow> bool" where
  \<comment> \<open>\<open>if args.tactic:\<close>\<close>
  "truthy t = (case t of None \<Rightarrow> False | Some v \<Rightarrow> v \<noteq> [])"

definition randint :: "world \<Rightarrow> int \<Rightarrow> int \<Rightarrow> exn + int" where
  \<comment> \<open>\<open>random.randint(a, b)\<close>\<close>
  "randint w a b =
     (if b < a then Inl (Exn ValueError ''empty range for randrange()'')
      else Inr (a + int (randint_draw w mod nat (b - a + 1))))"

text \<open>The command lines of the warmup and of the detonation.\<close>

definition warmup_cmd :: "technique_entry \<Rightarrow> string list" where
  "warmup_cmd tech = [''stratus'', ''warmup'', tech_id tech]"

definition detonate_cmd :: "run_args \<Rightarrow> technique_entry \<Rightarrow> string list" where
  "detonate_cmd args tech =
     [''stratus'', ''detonate'', tech_id tech]
     @ (if arg_mode args = mode_value VALIDATE then [''--cleanup''] else [])"

text \<open>The block \<open># Warmup\<close> of \<open>cmd_run\<close>.\<close>

definition warmup_step ::
  "world \<Rightarrow> run_args \<Rightarrow> technique_entry \<Rightarrow> RunRecord \<Rightarrow> state
     \<Rightarrow> outcome option \<times> RunRecord \<times> state" where
  "warmup_step w args tech run_record s =
     (case run_cmd w (warmup_cmd tech) True (region_env (arg_region args)) s of
        (Inr _, s1) \<Rightarrow>
          (let (t, s2) = now_iso w s1;
               r1 = run_record\<lparr>warmup_at := Some t, status := status_value WARMUP_COMPLETE\<rparr>
           in (None, r1, save r1 s2))
      | (Inl e, s1) \<Rightarrow>
          if caught [RuntimeError] e then
            (let r1 = run_record\<lparr>status := status_value FAILED,
                                  error := Some (''Warmup failed: '' @ message e)\<rparr>;
                 s2 = save r1 s1
             in (Some (Return 1), r1, print Stderr (''ERROR: Warmup failed: '' @ message e) s2))
          else (Some (Raise e), run_record, s1))"

text \<open>The block \<open># Optional dwell time\<close>.\<close>

definition dwell_step :: "world \<Rightarrow> run_args \<Rightarrow> state \<Rightarrow> outcome option \<times> state" where
  "dwell_step w args s =
     (if dwell_min args \<noteq> 0 \<or> dwell_max args \<noteq> 0 then
        (case randint w (dwell_min args) (dwell_max args) of
           Inl e \<Rightarrow> (Some (Raise e), s)
         | Inr dwell \<Rightarrow>
             if 0 < dwell
             then (None, emit (Sleep dwell)
                           (print Stdout (''Dwelling for '' @ str_int dwell @ ''s...'') s))
             else (None, s))
      else (None, s))"

text \<open>The block \<open># Detonate\<close>.\<close>

definition detonate_step ::
  "world \<Rightarrow> run_args \<Rightarrow> technique_entry \<Rightarrow> RunRecord \<Rightarrow> state
     \<Rightarrow> outcome option \<times> RunRecord \<times> state" where
  "detonate_step w args tech run_record s =
     (let det_cmd = detonate_cmd args tech
      in case run_cmd w det_cmd True (region_env (arg_region args)) s of
           (Inr _, s1) \<Rightarrow>
             (let (t, s2) = now_iso w s1;
                  r1 = run_record\<lparr>detonated_at := Some t, status := status_value DETONATED\<rparr>;
                  (r2, s3) =
                    (if arg_mode args = mode_value VALIDATE then
                       (let (t', s') = now_iso w s2
                        in (r1\<lparr>cleaned_at := Some t', status := status_value CLEANED\<rparr>, s'))
                     else (r1, s2))
              in (None, r2, save r2 s3))
         | (Inl e, s1) \<Rightarrow>
             if caught [RuntimeError] e then
               (let r1 = run_record\<lparr>status := status_value FAILED,
                                     error := Some (''Detonate failed: '' @ message e)\<rparr>;
                    s2 = save r1 s1
                in (Some (Return 1), r1, print Stderr (''ERROR: Detonate failed: '' @ message e) s2))
             else (Some (Raise e), run_record, s1))"

text \<open>The block \<open># Update history\<close> and the closing messages.\<close>

definition history_step :: "technique_entry \<Rightarrow> string \<Rightarrow> state \<Rightarrow> outcome \<times> state" where
  "history_step tech rid s =
     (case load_history s of
        Inl e \<Rightarrow> (Raise e, s)
      | Inr h \<Rightarrow>
          (let s1 = save_history (h @ [tech_id tech]) 20 s;
               s2 = print Stdout ''Attack launched successfully.'' s1;
               s3 = print Stdout ''Your move: detect, investigate, respond.'' s2;
               s4 = print Stdout (''When done, run: stratus_randomizer.py reveal '' @ rid) s3
           in (Return 0, s4)))"

text \<open>From the warmup to the end of the \<open>try\<close> block, once the record exists.\<close>

definition run_steps ::
  "world \<Rightarrow> run_args \<Rightarrow> technique_entry \<Rightarrow> RunRecord \<Rightarrow> state
     \<Rightarrow> outcome \<times> RunRecord \<times> state" where
  "run_steps w args tech run_record s =
     (case warmup_step w args tech run_record s of
        (Some out, r1, s1) \<Rightarrow> (out, r1, s1)
      | (None, r1, s1) \<Rightarrow>
          (case dwell_step w args s1 of
             (Some out, s2) \<Rightarrow> (out, r1, s2)
           | (None, s2) \<Rightarrow>
               (case detonate_step w args tech r1 s2 of
                  (Some out, r2, s3) \<Rightarrow> (out, r2, s3)
                | (None, r2, s3) \<Rightarrow>
                    (case history_step tech (run_id r2) s3 of (out, s4) \<Rightarrow> (out, r2, s4)))))"

text \<open>The blocks \<open># Create run record\<close> and \<open># Print minimal info\<close>.\<close>

definition create_record ::
  "world \<Rightarrow> run_args \<Rightarrow> string \<Rightarrow> technique_entry \<Rightarrow> state \<Rightarrow> RunRecord \<times> state" where
  "create_record w args current_account tech s =
     (let (rid, s1) = generate_run_id w s;
          (t, s2) = now_iso w s1;
          run_record =
            \<lparr>run_id = rid, technique = tech_id tech,
             account = current_account, region = arg_region args,
             mode = arg_mode args, tactic_filter = arg_tactic args,
             started_at = t, status = status_value STARTED,
             warmup_at = None, detonated_at = None,
             cleaned_at = None, error = None\<rparr>;
          s3 = save run_record s2;
          s4 = print Stdout (''RUN_ID: '' @ rid) s3;
          s5 = print Stdout (''MODE: '' @ arg_mode args) s4;
          s6 = (if truthy (arg_tactic args)
                then print Stdout (''TACTIC: '' @ the (arg_tactic args)) s5
                else s5);
          s7 = print Stdout ''Attack launching...'' s6
      in (run_record, print Stdout [] s7))"

text \<open>
  The \<open>try\<close> block of \<open>cmd_run\<close>: how it is left, the value of the variable
  \<open>run_record\<close> at that moment, and the state.
\<close>

definition run_body :: "world \<Rightarrow> run_args \<Rightarrow> state \<Rightarrow> outcome \<times> RunRecord option \<times> state" where
  "run_body w args s =
     (case aws_identity w of
        Inl e \<Rightarrow> (Raise e, None, s)
      | Inr (current_account, current_arn) \<Rightarrow>
          if current_account \<noteq> arg_account args then
            (Return 1, None,
             print Stderr (''ERROR: Running in account '' @ current_account
                           @ '', expected '' @ arg_account args) s)
          else
            (case techniques_of w (arg_tactic args) of
               Inl e \<Rightarrow> (Raise e, None, s)
             | Inr techniques \<Rightarrow>
                 if techniques = [] then
                   (let s1 = print Stderr ''ERROR: No techniques found'' s
                    in (Return 1, None,
                        if truthy (arg_tactic args)
                        then print Stderr (''Tactic filter: '' @ the (arg_tactic args)) s1
                        else s1))
                 else
                   (case select_technique w techniques (\<not> allow_repeat args) (avoid_last_n args) s of
                      Inl e \<Rightarrow> (Raise e, None, s)
                    | Inr tech \<Rightarrow>
                        (let (run_record, s1) = create_record w args current_account tech s
                         in case run_steps w args tech run_record s1 of
                              (out, r, s2) \<Rightarrow> (out, Some r, s2)))))"

text \<open>
  How the \<open>try\<close> statement is left: a \<open>return\<close> passes through; any exception reaches
  the handler \<open>except Exception\<close>, which prints it, marks the record, if there is one,
  as failed, saves it, and returns 1.
\<close>

definition leave_try :: "outcome \<Rightarrow> RunRecord option \<Rightarrow> state \<Rightarrow> int \<times> state" where
  "leave_try out run_record s =
     (case out of
        Raise e \<Rightarrow>
          (let s1 = print Stderr (''ERROR: '' @ message e) s
           in (1, case run_record of
                    None \<Rightarrow> s1
                  | Some r \<Rightarrow> save (r\<lparr>status := status_value FAILED,
                                       error := Some (message e)\<rparr>) s1))
      | Return n \<Rightarrow> (n, s))"

text \<open>
  \<open>cmd_run\<close>: the lock, the \<open>try\<close> statement and its \<open>finally\<close> clause. The result is
  the exit status, or the exception that leaves the function.
\<close>

definition cmd_run :: "world \<Rightarrow> run_args \<Rightarrow> state \<Rightarrow> (exn + int) \<times> state" where
  "cmd_run w args s =
     (case acquire w s of
        (False, s1) \<Rightarrow>
          (case get_holder_pid s1 of
             Inl e \<Rightarrow> (Inl e, s1)
           | Inr holder_pid \<Rightarrow>
               (let s2 = print Stderr (''ERROR: Another run is in progress (PID: ''
                                        @ str_opt_int holder_pid @ '')'') s1;
                    s3 = print Stderr
                           ''If this is stale, the lock will auto-release when the process exits.'' s2
                in (Inr 1, s3)))
      | (True, s1) \<Rightarrow>
          (let (out, run_record, s2) = run_body w args s1;
               (code, s3) = leave_try out run_record s2
           in (Inr code, release w True s3)))"

section \<open>The cleanup command\<close>

definition revert_cmd :: "RunRecord \<Rightarrow> string list" where
  "revert_cmd r = [''stratus'', ''revert'', technique r]"

definition cleanup_cmd :: "RunRecord \<Rightarrow> string list" where
  "cleanup_cmd r = [''stratus'', ''cleanup'', technique r]"

definition cmd_cleanup :: "world \<Rightarrow> string \<Rightarrow> state \<Rightarrow> (exn + int) \<times> state" where
  "cmd_cleanup w rid s =
     (case load rid s of
        Inl e \<Rightarrow>
          if caught [FileNotFoundError] e
          then (Inr 1, print Stderr (''ERROR: Run '' @ rid @ '' not found'') s)
          else (Inl e, s)
      | Inr r \<Rightarrow>
          if status r = status_value CLEANED
          then (Inr 0, print Stdout (''Run '' @ rid @ '' is already cleaned.'') s)
          else
            (let env = region_env (region r);
                 s1 = print Stdout (''Cleaning up run '' @ rid @ ''...'') s;
                 s2 = print Stdout (''Technique: '' @ technique r) s1;
                 s3 = print Stdout ''Running stratus revert...'' s2
             in case run_cmd w (revert_cmd r) False env s3 of
                  (Inl e, s4) \<Rightarrow> (Inr 1, print Stderr (''ERROR during cleanup: '' @ message e) s4)
                | (Inr _, s4) \<Rightarrow>
                    (let s5 = print Stdout ''Running stratus cleanup...'' s4
                     in case run_cmd w (cleanup_cmd r) False env s5 of
                          (Inl e, s6) \<Rightarrow>
                            (Inr 1, print Stderr (''ERROR during cleanup: '' @ message e) s6)
                        | (Inr _, s6) \<Rightarrow>
                            (let (t, s7) = now_iso w s6;
                                 r1 = r\<lparr>cleaned_at := Some t, status := status_value CLEANED\<rparr>;
                                 s8 = save r1 s7
                             in (Inr 0, print Stdout ''Cleanup complete.'' s8)))))"

section \<open>Observations on a state\<close>

fun saved_statuses :: "effect list \<Rightarrow> string list" where
  \<comment> \<open>the \<open>status\<close> written by each \<open>RunRecord.save\<close>, oldest first\<close>
  "saved_statuses [] = []"
| "saved_statuses (Save r # es) = status r # saved_statuses es"
| "saved_statuses (e # es) = saved_statuses es"

definition holder_of :: "state \<Rightarrow> nat option" where
  \<comment> \<open>the process that holds the lock\<close>
  "holder_of s = (case lock s of None \<Rightarrow> None | Some f \<Rightarrow> holder f)"

definition stored_record :: "state \<Rightarrow> string \<Rightarrow> RunRecord option" where
  \<comment> \<open>the record persisted under a \<open>run_id\<close>\<close>
  "stored_record s rid = (case runs s rid of Some (Stored r) \<Rightarrow> Some r | _ \<Rightarrow> None)"

section \<open>The lifecycle as the specification states it\<close>

definition lifecycle_path :: "string list" where
  "lifecycle_path = map status_value [STARTED, WARMUP_COMPLETE, DETONATED, CLEANED]"

definition claimed_sequence :: "string list \<Rightarrow> bool" where
  \<comment> \<open>a prefix of the path, or \<open>FAILED\<close> reached from \<open>STARTED\<close> or \<open>WARMUP_COMPLETE\<close>\<close>
  "claimed_sequence xs =
     (prefix xs lifecycle_path
      \<or> xs = map status_value [STARTED, FAILED]
      \<or> xs = map status_value [STARTED, WARMUP_COMPLETE, FAILED])"

section \<open>The lifecycle as the run command persists it\<close>

definition detonated_status :: "run_args \<Rightarrow> RunStatus" where
  \<comment> \<open>the status that the one \<open>save\<close> after a successful detonation writes\<close>
  "detonated_status args = (if arg_mode args = mode_value VALIDATE then CLEANED else DETONATED)"

definition persisted_sequences :: "run_args \<Rightarrow> string list list" where
  \<comment> \<open>the sequences of persisted statuses that a run can leave behind\<close>
  "persisted_sequences args =
     [Nil,
      map status_value [STARTED, FAILED],
      map status_value [STARTED, WARMUP_COMPLETE, FAILED],
      map status_value [STARTED, WARMUP_COMPLETE, detonated_status args],
      map status_value [STARTED, WARMUP_COMPLETE, detonated_status args, FAILED]]"

section \<open>Auxiliary functions of the statements and proofs\<close>

definition decimal :: "nat \<Rightarrow> string \<Rightarrow> nat" where
  \<comment> \<open>the value of a string of decimal digits, continuing from \<open>acc\<close>\<close>
  "decimal acc ds = foldl (\<lambda>a c. 10 * a + digit_val c) acc ds"

definition started_record :: "world \<Rightarrow> run_args \<Rightarrow> technique_entry \<Rightarrow> state \<Rightarrow> RunRecord" where
  \<comment> \<open>the record that \<open>cmd_run\<close> creates when it starts from the state \<open>s\<close>\<close>
  "started_record w args tech s =
     \<lparr>run_id = now_stamp_at w (clock s) @ ''-'' @ urandom_hex w, technique = tech_id tech,
      account = arg_account args, region = arg_region args,
      mode = arg_mode args, tactic_filter = arg_tactic args,
      started_at = now_iso_at w (clock s + 1), status = status_value STARTED,
      warmup_at = None, detonated_at = None, cleaned_at = None, error = None\<rparr>"

definition detonated_record :: "world \<Rightarrow> run_args \<Rightarrow> RunRecord \<Rightarrow> nat \<Rightarrow> RunRecord" where
  \<comment> \<open>the record after a warmup that completes at the clock reading \<open>k\<close> and a detonation
      that completes at the next reading\<close>
  "detonated_record w args r k =
     (if arg_mode args = mode_value VALIDATE
      then r\<lparr>warmup_at := Some (now_iso_at w k),
             detonated_at := Some (now_iso_at w (Suc k)),
             cleaned_at := Some (now_iso_at w (Suc (Suc k))),
             status := status_value CLEANED\<rparr>
      else r\<lparr>warmup_at := Some (now_iso_at w k),
             detonated_at := Some (now_iso_at w (Suc k)),
             status := status_value DETONATED\<rparr>)"

fun step_saves :: "RunStatus \<Rightarrow> outcome option \<Rightarrow> string list" where
  \<comment> \<open>the statuses persisted by a block that saves when it completes and when it fails\<close>
  "step_saves ok None = [status_value ok]"
| "step_saves ok (Some (Return n)) = [status_value FAILED]"
| "step_saves ok (Some (Raise e)) = []"

fun handler_saves :: "outcome \<Rightarrow> string list" where
  \<comment> \<open>the status persisted by the handler \<open>except Exception\<close> once the record exists\<close>
  "handler_saves (Raise e) = [status_value FAILED]"
| "handler_saves (Return n) = []"

section \<open>Concrete inputs\<close>

definition all_ok :: "string list \<Rightarrow> environ \<Rightarrow> proc_outcome" where
  "all_ok cmd env = Completed \<lparr>returncode = 0, stdout = [], stderr = []\<rparr>"

definition fails_on :: "string \<Rightarrow> string list \<Rightarrow> environ \<Rightarrow> proc_outcome" where
  \<comment> \<open>the stratus subcommand \<open>sub\<close> exits with status 1, every other command with 0\<close>
  "fails_on sub cmd env =
     (if take 2 cmd = [''stratus'', sub]
      then Completed \<lparr>returncode = 1, stdout = [], stderr = ''boom''\<rparr>
      else all_ok cmd env)"

definition no_stratus :: "string list \<Rightarrow> environ \<Rightarrow> proc_outcome" where
  \<comment> \<open>the executable cannot be launched\<close>
  "no_stratus cmd env = LaunchError ''[Errno 2] No such file or directory: stratus''"

definition demo_catalog :: "technique_entry list" where
  "demo_catalog =
     [\<lparr>tech_id = ''aws.persistence.iam-backdoor-user'', tech_name = ''Backdoor an IAM user''\<rparr>,
      \<lparr>tech_id = ''aws.exfiltration.s3-backdoor-bucket-policy'', tech_name = ''Backdoor an S3 bucket''\<rparr>]"

definition first_technique :: technique_entry where
  "first_technique =
     \<lparr>tech_id = ''aws.persistence.iam-backdoor-user'', tech_name = ''Backdoor an IAM user''\<rparr>"

definition two_entries :: "string list" where
  "two_entries = [''aws.persistence.iam-backdoor-user'', ''aws.exfiltration.s3-backdoor-bucket-policy'']"

definition demo_world :: world where
  "demo_world =
     \<lparr>getpid = 4242,
      now_iso_at = (\<lambda>n. ''2024-01-15T12:00:00.00000'' @ str_nat n @ ''+00:00''),
      now_stamp_at = (\<lambda>n. ''20240115T120000Z''),
      urandom_hex = ''1a2b3c4d'',
      aws_identity = Inr (''123456789012'', ''arn:aws:iam::123456789012:user/trainer''),
      techniques_of = (\<lambda>tactic. Inr demo_catalog),
      subprocess_run = all_ok,
      choice_draw = 0,
      randint_draw = 0\<rparr>"

definition demo_args :: run_args where
  "demo_args =
     \<lparr>arg_account = ''123456789012'', arg_region = ''us-east-1'', arg_mode = ''train'',
      arg_tactic = None, dwell_min = 0, dwell_max = 0, allow_repeat = False, avoid_last_n = 5\<rparr>"

definition validate_args :: run_args where
  "validate_args = demo_args\<lparr>arg_mode := ''validate''\<rparr>"

definition repeat_args :: run_args where
  \<comment> \<open>validate mode with \<open>--allow-repeat\<close>: the selector does not read the history\<close>
  "repeat_args = validate_args\<lparr>allow_repeat := True\<rparr>"

definition demo_run_id :: string where
  "demo_run_id = ''20240115T120000Z-1a2b3c4d''"

definition demo_record :: RunRecord where
  "demo_record =
     \<lparr>run_id = demo_run_id, technique = ''aws.persistence.iam-backdoor-user'',
      account = ''123456789012'', region = ''us-east-1'', mode = ''train'',
      tactic_filter = None, started_at = ''2024-01-15T12:00:00.000001+00:00'',
      status = ''detonated'',
      warmup_at = Some ''2024-01-15T12:00:00.000002+00:00'',
      detonated_at = Some ''2024-01-15T12:00:00.000003+00:00'',
      cleaned_at = None, error = None\<rparr>"

definition empty_state :: state where
  "empty_state = \<lparr>lock = None, runs = (\<lambda>rid. None), history = NoFile, clock = 0, trace = []\<rparr>"

definition garbage_lock :: state where
  "garbage_lock = empty_state\<lparr>lock := Some \<lparr>content = Text ''not a pid'', holder = None\<rparr>\<rparr>"

definition blank_lock :: state where
  "blank_lock = empty_state\<lparr>lock := Some \<lparr>content = Text [CHR '' '', NL], holder = None\<rparr>\<rparr>"

definition binary_lock :: state where
  "binary_lock = empty_state\<lparr>lock := Some \<lparr>content = Undecodable, holder = None\<rparr>\<rparr>"

definition held_lock :: state where
  \<comment> \<open>the lock is held by process 777\<close>
  "held_lock = empty_state\<lparr>lock := Some \<lparr>content = Text (pid_line 777), holder = Some 777\<rparr>\<rparr>"

definition used_first :: state where
  \<comment> \<open>the history holds the first technique of the catalog\<close>
  "used_first = empty_state\<lparr>history := JsonList [''aws.persistence.iam-backdoor-user'']\<rparr>"

definition used_second :: state where
  "used_second = empty_state\<lparr>history := JsonList [''aws.exfiltration.s3-backdoor-bucket-policy'']\<rparr>"

definition used_all :: state where
  "used_all = empty_state\<lparr>history := JsonList (map tech_id demo_catalog)\<rparr>"

definition bad_history :: state where
  \<comment> \<open>the history file holds bytes that do not decode\<close>
  "bad_history = empty_state\<lparr>history := BadBytes\<rparr>"

definition one_run :: state where
  \<comment> \<open>one stored run, detonated and not yet cleaned, after four readings of the clock\<close>
  "one_run =
     empty_state\<lparr>runs := (\<lambda>rid. if rid = demo_run_id then Some (Stored demo_record) else None),
                 clock := 4\<rparr>"

definition busy_elsewhere :: state where
  \<comment> \<open>the same history as \<open>used_first\<close>, everything else different\<close>
  "busy_elsewhere =
     \<lparr>lock = Some \<lparr>content = Text (pid_line 777), holder = Some 777\<rparr>,
      runs = (\<lambda>rid. if rid = demo_run_id then Some (Stored demo_record) else None),
      history = JsonList [''aws.persistence.iam-backdoor-user''],
      clock = 7,
      trace = [Sleep 3]\<rparr>"

section \<open>Printing and parsing process identifiers\<close>

lemma digit_char_ok: "d < 10 \<Longrightarrow> is_digit (digit_char d) \<and> digit_val (digit_char d) = d"
  by (simp add: is_digit_def digit_char_def digit_val_def)

lemma digit_not_special:
  "is_digit c \<Longrightarrow> \<not> is_space c \<and> c \<noteq> CHR ''+'' \<and> c \<noteq> CHR ''-'' \<and> c \<noteq> CHR ''_''"
  by (auto simp: is_digit_def is_space_def)

lemma str_nat_digits: "c \<in> set (str_nat n) \<Longrightarrow> is_digit c"
proof (induction n arbitrary: c rule: str_nat.induct)
  case (1 n)
  show ?case
  proof (cases "n < 10")
    case True
    with "1.prems" show ?thesis
      by (simp add: str_nat.simps [of n] digit_char_ok)
  next
    case False
    with "1.prems" "1.IH" show ?thesis
      by (auto simp: str_nat.simps [of n] digit_char_ok)
  qed
qed

lemma str_nat_nonempty: "str_nat n \<noteq> []"
  by (subst str_nat.simps) simp

lemma parse_digits_all:
  "\<forall>c \<in> set ds. is_digit c \<Longrightarrow> ds \<noteq> [] \<or> prev \<Longrightarrow> parse_digits acc prev ds = Some (decimal acc ds)"
  by (induction ds arbitrary: acc prev) (auto simp: decimal_def)

lemma decimal_str_nat: "decimal 0 (str_nat n) = n"
proof (induction n rule: str_nat.induct)
  case (1 n)
  show ?case
  proof (cases "n < 10")
    case True
    then show ?thesis
      by (simp add: str_nat.simps [of n] decimal_def digit_char_ok)
  next
    case False
    with "1.IH" show ?thesis
      by (simp add: str_nat.simps [of n] decimal_def digit_char_ok)
  qed
qed

lemma strip_no_space:
  assumes "\<forall>c \<in> set ds. \<not> is_space c"
  shows "strip ds = ds" and "strip (ds @ [NL]) = ds"
proof -
  have lead: "dropWhile is_space ds = ds"
    using assms by (cases ds) auto
  have trail: "dropWhile is_space (rev ds) = rev ds"
    using assms by (cases "rev ds") (auto simp: rev_eq_Cons_iff)
  show "strip ds = ds"
    by (simp add: strip_def lead trail)
  have nl: "is_space NL"
    by (simp add: is_space_def NL_def)
  show "strip (ds @ [NL]) = ds"
  proof (cases ds)
    case Nil
    with nl show ?thesis
      by (simp add: strip_def)
  next
    case (Cons d ds')
    with assms have "dropWhile is_space (ds @ [NL]) = ds @ [NL]"
      by simp
    with nl trail show ?thesis
      by (simp add: strip_def)
  qed
qed

lemma py_int_str_nat: "py_int (str_nat n) = Inr (int n)"
proof -
  have digits: "\<forall>c \<in> set (str_nat n). is_digit c"
    by (simp add: str_nat_digits)
  then have "\<forall>c \<in> set (str_nat n). \<not> is_space c"
    by (simp add: digit_not_special)
  then have s: "strip (str_nat n) = str_nat n"
    by (rule strip_no_space)
  obtain c cs where cons: "str_nat n = c # cs"
    using str_nat_nonempty [of n] by (cases "str_nat n") auto
  with digits have "is_digit c"
    by simp
  then have sign: "c \<noteq> CHR ''+''" "c \<noteq> CHR ''-''"
    by (simp_all add: digit_not_special)
  have "parse_digits 0 False (str_nat n) = Some n"
    using parse_digits_all [OF digits, of False 0] str_nat_nonempty [of n]
    by (simp add: decimal_str_nat)
  with s cons sign show ?thesis
    by (simp add: py_int_def)
qed

lemma strip_pid_line: "strip (pid_line p) = str_nat p"
  unfolding pid_line_def
  by (rule strip_no_space) (simp add: str_nat_digits digit_not_special)

lemma get_holder_pid_pid_line:
  "lock s = Some \<lparr>content = Text (pid_line p), holder = h\<rparr> \<Longrightarrow> get_holder_pid s = Inr (Some (int p))"
  by (simp add: get_holder_pid_def read_lock_text_def strip_pid_line str_nat_nonempty py_int_str_nat)

lemma py_int_ValueError: "py_int s = Inl e \<Longrightarrow> kind e = ValueError"
  by (auto simp: py_int_def Let_def split: option.splits)

lemma get_holder_pid_returns: "\<exists>v. get_holder_pid s = Inr v"
  by (auto simp: get_holder_pid_def read_lock_text_def caught_def Let_def
      dest: py_int_ValueError split: option.splits file_text.splits sum.splits if_splits)


section \<open>Effects on the components of the state\<close>

lemma emit_fields [simp]:
  "lock (emit e s) = lock s" "runs (emit e s) = runs s" "history (emit e s) = history s"
  "clock (emit e s) = clock s" "trace (emit e s) = trace s @ [e]"
  by (simp_all add: emit_def)

lemma print_fields [simp]:
  "lock (print st l s) = lock s" "runs (print st l s) = runs s"
  "history (print st l s) = history s" "clock (print st l s) = clock s"
  "trace (print st l s) = trace s @ [Print st l]"
  by (simp_all add: print_def)

lemma save_fields [simp]:
  "lock (save r s) = lock s" "runs (save r s) = (runs s)(run_id r \<mapsto> Stored r)"
  "history (save r s) = history s" "clock (save r s) = clock s"
  "trace (save r s) = trace s @ [Save r]"
  by (simp_all add: save_def)

lemma saved_statuses_append [simp]:
  "saved_statuses (xs @ ys) = saved_statuses xs @ saved_statuses ys"
  by (induction xs rule: saved_statuses.induct) simp_all


section \<open>The lock manager\<close>

text \<open>
  C10. \<open>get_holder_pid\<close> never raises, whatever the lock file holds: it returns \<open>None\<close>
  when the file is absent, does not decode, is blank, or holds text that \<open>int\<close> rejects,
  and it returns an identifier only when the stripped content parses as that integer.
\<close>

theorem get_holder_pid_total:
  "(\<exists>v. get_holder_pid s = Inr v)
   \<and> (lock s = None \<longrightarrow> get_holder_pid s = Inr None)
   \<and> (\<forall>f. lock s = Some f \<longrightarrow> content f = Undecodable \<longrightarrow> get_holder_pid s = Inr None)
   \<and> (\<forall>f t. lock s = Some f \<longrightarrow> content f = Text t \<longrightarrow> strip t = [] \<longrightarrow> get_holder_pid s = Inr None)
   \<and> (\<forall>f t e. lock s = Some f \<longrightarrow> content f = Text t \<longrightarrow> py_int (strip t) = Inl e
        \<longrightarrow> get_holder_pid s = Inr None)
   \<and> (\<forall>i. get_holder_pid s = Inr (Some i)
        \<longrightarrow> (\<exists>f t. lock s = Some f \<and> content f = Text t \<and> py_int (strip t) = Inr i))"
  by (auto simp: get_holder_pid_def read_lock_text_def caught_def Let_def
      dest: py_int_ValueError split: option.splits file_text.splits sum.splits if_splits)

theorem get_holder_pid_total_witness:
  "get_holder_pid empty_state = Inr None
   \<and> get_holder_pid binary_lock = Inr None
   \<and> get_holder_pid blank_lock = Inr None
   \<and> get_holder_pid garbage_lock = Inr None
   \<and> get_holder_pid held_lock = Inr (Some 777)
   \<and> py_int (strip (pid_line 777)) = Inr 777"
proof -
  have "lock empty_state = None"
    by (simp add: empty_state_def)
  then have absent: "get_holder_pid empty_state = Inr None"
    using get_holder_pid_total [of empty_state] by blast
  have "lock binary_lock = Some \<lparr>content = Undecodable, holder = None\<rparr>"
    by (simp add: binary_lock_def empty_state_def)
  then have binary: "get_holder_pid binary_lock = Inr None"
    using get_holder_pid_total [of binary_lock] by simp
  have "lock blank_lock = Some \<lparr>content = Text [CHR '' '', NL], holder = None\<rparr>"
    and "strip [CHR '' '', NL] = []"
    by (simp add: blank_lock_def empty_state_def, code_simp)
  then have blank: "get_holder_pid blank_lock = Inr None"
    using get_holder_pid_total [of blank_lock] by simp
  have "lock garbage_lock = Some \<lparr>content = Text ''not a pid'', holder = None\<rparr>"
    and "py_int (strip ''not a pid'')
         = Inl (Exn ValueError ''invalid literal for int() with base 10: not a pid'')"
    by (simp add: garbage_lock_def empty_state_def, code_simp)
  then have garbage: "get_holder_pid garbage_lock = Inr None"
    using get_holder_pid_total [of garbage_lock] by simp
  have held: "get_holder_pid held_lock = Inr (Some 777)"
    by code_simp
  then have "\<exists>f t. lock held_lock = Some f \<and> content f = Text t \<and> py_int (strip t) = Inr 777"
    using get_holder_pid_total [of held_lock] by blast
  then have "py_int (strip (pid_line 777)) = Inr 777"
    by (auto simp: held_lock_def empty_state_def)
  with absent binary blank garbage held show ?thesis
    by simp
qed

lemma acquire_free:
  "holder_of s = None \<Longrightarrow>
   acquire w s = (True, s\<lparr>lock := Some \<lparr>content = Text (pid_line (getpid w)), holder = Some (getpid w)\<rparr>\<rparr>)"
  by (auto simp: acquire_def holder_of_def split: option.splits)

lemma acquire_held: "holder_of s \<noteq> None \<Longrightarrow> acquire w s = (False, s)"
  by (auto simp: acquire_def holder_of_def split: option.splits)

lemma acquire_iff: "fst (acquire w s) \<longleftrightarrow> holder_of s = None"
  by (cases "holder_of s = None") (simp_all add: acquire_free acquire_held)

lemma acquire_lock:
  "fst (acquire w s) \<Longrightarrow>
   lock (snd (acquire w s)) = Some \<lparr>content = Text (pid_line (getpid w)), holder = Some (getpid w)\<rparr>"
  by (simp add: acquire_iff acquire_free)

lemma str_opt_int_nat: "str_opt_int (Some (int p)) = str_nat p"
  by (simp add: str_opt_int_def str_int_def)

text \<open>
  C3. When another process has acquired the lock and still holds it, \<open>acquire\<close> returns
  \<open>False\<close> and changes nothing, and \<open>cmd_run\<close> returns 1 after two messages on the
  standard error stream, the first naming the identifier of the holder; no record is
  saved.
\<close>

theorem busy_reports_holder:
  assumes "fst (acquire w' s0)" and "lock s = lock (snd (acquire w' s0))"
  shows "acquire w s = (False, s)
    \<and> cmd_run w args s =
        (Inr 1,
         print Stderr ''If this is stale, the lock will auto-release when the process exits.''
           (print Stderr (''ERROR: Another run is in progress (PID: '' @ str_nat (getpid w') @ '')'') s))
    \<and> runs (snd (cmd_run w args s)) = runs s
    \<and> saved_statuses (trace (snd (cmd_run w args s))) = saved_statuses (trace s)"
proof -
  from assms have l: "lock s = Some \<lparr>content = Text (pid_line (getpid w')), holder = Some (getpid w')\<rparr>"
    by (simp add: acquire_lock)
  then have "holder_of s \<noteq> None"
    by (simp add: holder_of_def)
  then have a: "acquire w s = (False, s)"
    by (rule acquire_held)
  from l have g: "get_holder_pid s = Inr (Some (int (getpid w')))"
    by (rule get_holder_pid_pid_line)
  from a g have c: "cmd_run w args s =
        (Inr 1,
         print Stderr ''If this is stale, the lock will auto-release when the process exits.''
           (print Stderr (''ERROR: Another run is in progress (PID: '' @ str_nat (getpid w') @ '')'') s))"
    by (simp add: cmd_run_def str_opt_int_nat)
  from a c show ?thesis
    by simp
qed

theorem busy_reports_holder_witness:
  "fst (acquire (demo_world\<lparr>getpid := 777\<rparr>) empty_state)
   \<and> lock held_lock = lock (snd (acquire (demo_world\<lparr>getpid := 777\<rparr>) empty_state))
   \<and> cmd_run demo_world demo_args held_lock =
        (Inr 1,
         held_lock\<lparr>trace :=
           [Print Stderr ''ERROR: Another run is in progress (PID: 777)'',
            Print Stderr ''If this is stale, the lock will auto-release when the process exits.'']\<rparr>)"
proof -
  have h1: "fst (acquire (demo_world\<lparr>getpid := 777\<rparr>) empty_state)"
    by (simp add: acquire_def empty_state_def)
  have h2: "lock held_lock = lock (snd (acquire (demo_world\<lparr>getpid := 777\<rparr>) empty_state))"
    by (simp add: acquire_def empty_state_def held_lock_def)
  have "str_nat 777 = ''777''"
    by code_simp
  with busy_reports_holder [OF h1 h2, of demo_world demo_args] h1 h2 show ?thesis
    by (simp add: print_def emit_def held_lock_def empty_state_def)
qed


section \<open>The technique selector\<close>

lemma choice_mem: "xs \<noteq> [] \<Longrightarrow> \<exists>x \<in> set xs. choice r xs = Inr x"
  by (simp add: choice_def)

lemma last_n_positive: "0 < n \<Longrightarrow> last_n xs n = drop (length xs - nat n) xs"
  by (simp add: last_n_def)

text \<open>
  For a catalog that is not empty and any history that loads, \<open>select_technique\<close>
  returns an entry of the catalog. When every entry of the catalog is among the last
  \<open>recent_count\<close> entries of the history, the exclusion is dropped and the choice is
  made in the whole catalog. For the empty catalog it raises
  \<open>ValueError('No techniques available')\<close>.
\<close>

lemma select_technique_in_catalog:
  "(techniques \<noteq> [] \<longrightarrow> load_history s = Inr h \<longrightarrow>
      (\<exists>t \<in> set techniques. select_technique w techniques avoid_recent recent_count s = Inr t))
   \<and> (techniques \<noteq> [] \<longrightarrow> load_history s = Inr h \<longrightarrow> 0 < recent_count \<longrightarrow>
        (\<forall>t \<in> set techniques. tech_id t \<in> set (drop (length h - nat recent_count) h)) \<longrightarrow>
        select_technique w techniques True recent_count s
          = Inr (techniques ! (choice_draw w mod length techniques)))
   \<and> select_technique w [] avoid_recent recent_count s
        = Inl (Exn ValueError ''No techniques available'')"
proof (intro conjI impI)
  assume ne: "techniques \<noteq> []" and h: "load_history s = Inr h"
  let ?cand = "filter (\<lambda>t. tech_id t \<notin> set (last_n h recent_count)) techniques"
  let ?pool = "if ?cand = [] then techniques else ?cand"
  have "?pool \<noteq> []" and sub: "set ?pool \<subseteq> set techniques"
    using ne by auto
  then obtain x where "x \<in> set ?pool" and "choice (choice_draw w) ?pool = Inr x"
    using choice_mem by blast
  moreover obtain y where "y \<in> set techniques" and "choice (choice_draw w) techniques = Inr y"
    using ne choice_mem by blast
  ultimately show "\<exists>t \<in> set techniques. select_technique w techniques avoid_recent recent_count s = Inr t"
    using ne h sub by (auto simp: select_technique_def Let_def)
next
  assume ne: "techniques \<noteq> []" and h: "load_history s = Inr h" and pos: "0 < recent_count"
    and all: "\<forall>t \<in> set techniques. tech_id t \<in> set (drop (length h - nat recent_count) h)"
  from pos all have "filter (\<lambda>t. tech_id t \<notin> set (last_n h recent_count)) techniques = []"
    by (simp add: last_n_positive filter_empty_conv)
  with ne h show "select_technique w techniques True recent_count s
          = Inr (techniques ! (choice_draw w mod length techniques))"
    by (simp add: select_technique_def Let_def choice_def)
next
  show "select_technique w [] avoid_recent recent_count s = Inl (Exn ValueError ''No techniques available'')"
    by (simp add: select_technique_def)
qed

lemma select_technique_in_catalog_example:
  "demo_catalog \<noteq> []
   \<and> load_history used_all = Inr (map tech_id demo_catalog)
   \<and> set (map tech_id demo_catalog)
       \<subseteq> set (drop (length (map tech_id demo_catalog) - nat 5) (map tech_id demo_catalog))
   \<and> select_technique demo_world demo_catalog True 5 used_all = Inr (demo_catalog ! 0)
   \<and> (\<exists>t \<in> set demo_catalog. select_technique demo_world demo_catalog True 5 used_all = Inr t)"
proof -
  have ne: "demo_catalog \<noteq> []"
    by (simp add: demo_catalog_def)
  have h: "load_history used_all = Inr (map tech_id demo_catalog)"
    by (simp add: load_history_def read_history_def used_all_def empty_state_def)
  have recent: "\<forall>t \<in> set demo_catalog.
         tech_id t \<in> set (drop (length (map tech_id demo_catalog) - nat 5) (map tech_id demo_catalog))"
    by (simp add: demo_catalog_def)
  have draw: "choice_draw demo_world mod length demo_catalog = 0"
    by (simp add: demo_world_def)
  from select_technique_in_catalog
         [of demo_catalog used_all "map tech_id demo_catalog" demo_world True 5]
       ne h recent draw
  show ?thesis
    by auto
qed

text \<open>
  C5 fails on the code when the history file holds bytes that do not decode:
  \<open>load_history\<close> catches \<open>JSONDecodeError\<close> and \<open>KeyError\<close> only, so the
  \<open>UnicodeDecodeError\<close> of \<open>read_text\<close> leaves it, and \<open>select_technique\<close> with
  \<open>avoid_recent\<close> true raises it for a catalog that is not empty, where C5 says that an
  entry of the catalog is returned.
\<close>

theorem select_technique_raises_on_undecodable_history:
  "demo_catalog \<noteq> []
   \<and> history bad_history = BadBytes
   \<and> load_history bad_history = Inl (Exn UnicodeDecodeError ''invalid start byte'')
   \<and> select_technique demo_world demo_catalog True 5 bad_history
       = Inl (Exn UnicodeDecodeError ''invalid start byte'')"
  by (simp add: select_technique_def load_history_def read_history_def caught_def
      bad_history_def empty_state_def demo_catalog_def)

text \<open>
  C6, as stated, fails: with the same arguments and the same random draw the selector
  returns different techniques on two states that differ only in the history file.
\<close>

theorem select_technique_reads_history:
  "select_technique demo_world demo_catalog True 5 used_first
   \<noteq> select_technique demo_world demo_catalog True 5 used_second"
  by (simp add: select_technique_def load_history_def read_history_def used_first_def used_second_def
      empty_state_def demo_catalog_def demo_world_def last_n_def choice_def)

text \<open>
  C6, amended. The result of \<open>select_technique\<close> is determined by its arguments, the
  random draw and the history file: two states with the same history file give the same
  result whatever their lock, run records, clock and log; with \<open>avoid_recent\<close> false the
  state is not read at all. The selector returns a value and no state: it writes nothing.
\<close>

theorem select_technique_depends_on_history_only:
  "history s = history s' \<or> \<not> avoid_recent \<Longrightarrow>
   select_technique w techniques avoid_recent recent_count s
   = select_technique w techniques avoid_recent recent_count s'"
  by (auto simp: select_technique_def load_history_def read_history_def)

theorem select_technique_depends_on_history_only_witness:
  "history used_first = history busy_elsewhere
   \<and> lock used_first \<noteq> lock busy_elsewhere
   \<and> select_technique demo_world demo_catalog True 5 used_first
     = select_technique demo_world demo_catalog True 5 busy_elsewhere"
proof -
  have h: "history used_first = history busy_elsewhere"
    by (simp add: used_first_def busy_elsewhere_def empty_state_def)
  have l: "lock used_first \<noteq> lock busy_elsewhere"
    by (simp add: used_first_def busy_elsewhere_def empty_state_def)
  from select_technique_depends_on_history_only [of used_first busy_elsewhere True demo_world demo_catalog 5] h l
  show ?thesis
    by simp
qed

section \<open>The history store\<close>

lemma save_history_bounded:
  assumes "0 < max_size"
  shows "history (save_history h max_size s) = JsonList (drop (length h - nat max_size) h)"
    and "int (length (drop (length h - nat max_size) h)) \<le> max_size"
    and "suffix (drop (length h - nat max_size) h) h"
  using assms by (auto simp: save_history_def last_n_def Let_def suffix_drop)

text \<open>
  C7 fails on the code for \<open>max_size = 0\<close>: the slice \<open>history[-0:]\<close> is the whole
  list, so \<open>save_history\<close> persists two entries where the bound is zero. For every
  \<open>max_size\<close> above zero the bound holds (lemma \<open>save_history_bounded\<close>).
\<close>

theorem save_history_zero_keeps_all:
  "history (save_history two_entries 0 empty_state) = JsonList two_entries
   \<and> \<not> int (length two_entries) \<le> 0"
  by (simp add: save_history_def last_n_def two_entries_def Let_def)

section \<open>Run identifiers\<close>

text \<open>
  C8 fails on the minimal script \<open>randomize.py\<close>: the \<open>run_id\<close> of \<open>do_run\<close> is the
  timestamp alone, so two runs started in the same second receive the same \<open>run_id\<close>
  although their random sources differ.
\<close>

theorem do_run_id_collides:
  "fst (do_run_id (demo_world\<lparr>urandom_hex := ''aaaaaaaa''\<rparr>) empty_state)
   = fst (do_run_id (demo_world\<lparr>urandom_hex := ''bbbbbbbb''\<rparr>) empty_state)
   \<and> urandom_hex (demo_world\<lparr>urandom_hex := ''aaaaaaaa''\<rparr>)
     \<noteq> urandom_hex (demo_world\<lparr>urandom_hex := ''bbbbbbbb''\<rparr>)"
  by (simp add: do_run_id_def demo_world_def)

text \<open>
  \<open>generate_run_id\<close> of \<open>stratus_randomizer.py\<close> returns the timestamp, a hyphen and
  the random suffix, so two runs with the same timestamp and distinct suffixes receive
  distinct identifiers.
\<close>

lemma generate_run_id_distinct:
  "fst (generate_run_id w s) = now_stamp_at w (clock s) @ ''-'' @ urandom_hex w
   \<and> (now_stamp_at w (clock s) = now_stamp_at w' (clock s') \<longrightarrow> urandom_hex w \<noteq> urandom_hex w'
        \<longrightarrow> fst (generate_run_id w s) \<noteq> fst (generate_run_id w' s'))"
  by (simp add: generate_run_id_def)

lemma generate_run_id_distinct_example:
  "now_stamp_at (demo_world\<lparr>urandom_hex := ''aaaaaaaa''\<rparr>) (clock empty_state)
     = now_stamp_at (demo_world\<lparr>urandom_hex := ''bbbbbbbb''\<rparr>) (clock empty_state)
   \<and> fst (generate_run_id (demo_world\<lparr>urandom_hex := ''aaaaaaaa''\<rparr>) empty_state)
       = ''20240115T120000Z-aaaaaaaa''
   \<and> fst (generate_run_id (demo_world\<lparr>urandom_hex := ''aaaaaaaa''\<rparr>) empty_state)
     \<noteq> fst (generate_run_id (demo_world\<lparr>urandom_hex := ''bbbbbbbb''\<rparr>) empty_state)"
proof -
  have same: "now_stamp_at (demo_world\<lparr>urandom_hex := ''aaaaaaaa''\<rparr>) (clock empty_state)
     = now_stamp_at (demo_world\<lparr>urandom_hex := ''bbbbbbbb''\<rparr>) (clock empty_state)"
    by (simp add: demo_world_def)
  have differ: "urandom_hex (demo_world\<lparr>urandom_hex := ''aaaaaaaa''\<rparr>)
     \<noteq> urandom_hex (demo_world\<lparr>urandom_hex := ''bbbbbbbb''\<rparr>)"
    by simp
  have stamp: "now_stamp_at (demo_world\<lparr>urandom_hex := ''aaaaaaaa''\<rparr>) (clock empty_state)
     = ''20240115T120000Z''"
    by (simp add: demo_world_def)
  note inst = generate_run_id_distinct
         [of "demo_world\<lparr>urandom_hex := ''aaaaaaaa''\<rparr>" empty_state
             "demo_world\<lparr>urandom_hex := ''bbbbbbbb''\<rparr>" empty_state]
  from inst stamp have "fst (generate_run_id (demo_world\<lparr>urandom_hex := ''aaaaaaaa''\<rparr>) empty_state)
       = ''20240115T120000Z-aaaaaaaa''"
    by simp
  moreover from inst same differ
  have "fst (generate_run_id (demo_world\<lparr>urandom_hex := ''aaaaaaaa''\<rparr>) empty_state)
     \<noteq> fst (generate_run_id (demo_world\<lparr>urandom_hex := ''bbbbbbbb''\<rparr>) empty_state)"
    by blast
  ultimately show ?thesis
    using same by blast
qed


section \<open>The cleanup command\<close>

lemma run_cmd_unchecked:
  "subprocess_run w cmd env = Completed p \<Longrightarrow> run_cmd w cmd False env s = (Inr p, emit (Exec cmd env) s)"
  by (simp add: run_cmd_def)

lemma run_cmd_launch_error:
  "subprocess_run w cmd env = LaunchError m \<Longrightarrow>
   run_cmd w cmd check env s = (Inl (Exn OSError m), emit (Exec cmd env) s)"
  by (simp add: run_cmd_def)

lemma load_stored: "runs s rid = Some (Stored r) \<Longrightarrow> load rid s = Inr r"
  by (simp add: load_def)

lemma load_missing:
  "runs s rid = None \<Longrightarrow> load rid s = Inl (Exn FileNotFoundError (''Run '' @ rid @ '' not found''))"
  by (simp add: load_def)

lemma cleanup_not_found:
  assumes "runs s rid = None"
  shows "cmd_cleanup w rid s = (Inr 1, print Stderr (''ERROR: Run '' @ rid @ '' not found'') s)"
  using assms by (simp add: cmd_cleanup_def load_missing caught_def)

lemma cleanup_already_cleaned:
  assumes "runs s rid = Some (Stored r)" and "status r = status_value CLEANED"
  shows "cmd_cleanup w rid s = (Inr 0, print Stdout (''Run '' @ rid @ '' is already cleaned.'') s)"
  using assms by (simp add: cmd_cleanup_def load_stored)

lemma cleanup_completes:
  assumes "runs s rid = Some (Stored r)" and "status r \<noteq> status_value CLEANED"
    and "subprocess_run w (revert_cmd r) (region_env (region r)) = Completed p1"
    and "subprocess_run w (cleanup_cmd r) (region_env (region r)) = Completed p2"
  shows "fst (cmd_cleanup w rid s) = Inr 0"
    and "runs (snd (cmd_cleanup w rid s))
         = (runs s)(run_id r \<mapsto> Stored (r\<lparr>cleaned_at := Some (now_iso_at w (clock s)),
                                                status := status_value CLEANED\<rparr>))"
    and "trace (snd (cmd_cleanup w rid s))
         = trace s @
           [Print Stdout (''Cleaning up run '' @ rid @ ''...''),
            Print Stdout (''Technique: '' @ technique r),
            Print Stdout ''Running stratus revert...'',
            Exec (revert_cmd r) (region_env (region r)),
            Print Stdout ''Running stratus cleanup...'',
            Exec (cleanup_cmd r) (region_env (region r)),
            Save (r\<lparr>cleaned_at := Some (now_iso_at w (clock s)), status := status_value CLEANED\<rparr>),
            Print Stdout ''Cleanup complete.'']"
  using assms
  by (simp_all add: cmd_cleanup_def load_stored run_cmd_unchecked now_iso_def Let_def
      revert_cmd_def cleanup_cmd_def)

lemma cleanup_launch_error:
  assumes "runs s rid = Some (Stored r)" and "status r \<noteq> status_value CLEANED"
    and "subprocess_run w (revert_cmd r) (region_env (region r)) = LaunchError m
         \<or> (subprocess_run w (revert_cmd r) (region_env (region r)) = Completed p1
            \<and> subprocess_run w (cleanup_cmd r) (region_env (region r)) = LaunchError m)"
  shows "fst (cmd_cleanup w rid s) = Inr 1"
    and "runs (snd (cmd_cleanup w rid s)) = runs s"
    and "saved_statuses (trace (snd (cmd_cleanup w rid s))) = saved_statuses (trace s)"
  using assms
  by (auto simp: cmd_cleanup_def load_stored run_cmd_unchecked run_cmd_launch_error Let_def
      revert_cmd_def cleanup_cmd_def)


lemma cleanup_revert_not_launched:
  assumes "runs s rid = Some (Stored r)" and "status r \<noteq> status_value CLEANED"
    and "subprocess_run w (revert_cmd r) (region_env (region r)) = LaunchError m"
  shows "cmd_cleanup w rid s =
     (Inr 1,
      s\<lparr>trace := trace s @
          [Print Stdout (''Cleaning up run '' @ rid @ ''...''),
           Print Stdout (''Technique: '' @ technique r),
           Print Stdout ''Running stratus revert...'',
           Exec (revert_cmd r) (region_env (region r)),
           Print Stderr (''ERROR during cleanup: '' @ m)]\<rparr>)"
  using assms
  by (simp add: cmd_cleanup_def load_stored run_cmd_launch_error Let_def print_def emit_def)

lemma cleanup_cleanup_not_launched:
  assumes "runs s rid = Some (Stored r)" and "status r \<noteq> status_value CLEANED"
    and "subprocess_run w (revert_cmd r) (region_env (region r)) = Completed p1"
    and "subprocess_run w (cleanup_cmd r) (region_env (region r)) = LaunchError m"
  shows "cmd_cleanup w rid s =
     (Inr 1,
      s\<lparr>trace := trace s @
          [Print Stdout (''Cleaning up run '' @ rid @ ''...''),
           Print Stdout (''Technique: '' @ technique r),
           Print Stdout ''Running stratus revert...'',
           Exec (revert_cmd r) (region_env (region r)),
           Print Stdout ''Running stratus cleanup...'',
           Exec (cleanup_cmd r) (region_env (region r)),
           Print Stderr (''ERROR during cleanup: '' @ m)]\<rparr>)"
  using assms
  by (simp add: cmd_cleanup_def load_stored run_cmd_launch_error run_cmd_unchecked Let_def
      print_def emit_def)

text \<open>
  C9, as stated, fails when an external command cannot be launched: \<open>run_cmd\<close> then
  raises, the handler of \<open>cmd_cleanup\<close> returns 1, the cleanup command is never invoked
  and the record keeps its status.
\<close>

theorem cleanup_aborts_on_launch_error:
  "fst (cmd_cleanup (demo_world\<lparr>subprocess_run := no_stratus\<rparr>) demo_run_id one_run) = Inr 1
   \<and> Exec (cleanup_cmd demo_record) (region_env (region demo_record))
       \<notin> set (trace (snd (cmd_cleanup (demo_world\<lparr>subprocess_run := no_stratus\<rparr>) demo_run_id one_run)))
   \<and> stored_record (snd (cmd_cleanup (demo_world\<lparr>subprocess_run := no_stratus\<rparr>) demo_run_id one_run))
        demo_run_id = Some demo_record
   \<and> status demo_record \<noteq> status_value CLEANED"
  by (simp add: cmd_cleanup_def load_def one_run_def empty_state_def demo_record_def
      run_cmd_def no_stratus_def Let_def stored_record_def cleanup_cmd_def revert_cmd_def
      region_env_def)

text \<open>
  C9, amended. For a stored record: if its status is already \<open>cleaned\<close>, \<open>cmd_cleanup\<close>
  returns 0 and only prints; otherwise, when both external commands complete, whatever
  their exit status, it invokes revert, then cleanup, then saves the record with status
  \<open>cleaned\<close> and the current time as \<open>cleaned_at\<close> under the record's own \<open>run_id\<close>, and
  returns 0. When the revert command cannot be launched, it prints the error on the
  standard error stream and returns 1: the cleanup command is not invoked and nothing is
  saved. When the revert command completes and the cleanup command cannot be launched, it
  prints the error and returns 1, and nothing is saved. For a \<open>run_id\<close> without a record
  it returns 1 and saves nothing.
\<close>

theorem cleanup_command:
  "(runs s rid = None \<longrightarrow>
      cmd_cleanup w rid s = (Inr 1, print Stderr (''ERROR: Run '' @ rid @ '' not found'') s))
   \<and> (runs s rid = Some (Stored r) \<longrightarrow> status r = status_value CLEANED \<longrightarrow>
      cmd_cleanup w rid s = (Inr 0, print Stdout (''Run '' @ rid @ '' is already cleaned.'') s))
   \<and> (runs s rid = Some (Stored r) \<longrightarrow> status r \<noteq> status_value CLEANED \<longrightarrow>
      subprocess_run w (revert_cmd r) (region_env (region r)) = Completed p1 \<longrightarrow>
      subprocess_run w (cleanup_cmd r) (region_env (region r)) = Completed p2 \<longrightarrow>
        fst (cmd_cleanup w rid s) = Inr 0
        \<and> runs (snd (cmd_cleanup w rid s))
            = (runs s)(run_id r \<mapsto> Stored (r\<lparr>cleaned_at := Some (now_iso_at w (clock s)),
                                                   status := status_value CLEANED\<rparr>))
        \<and> trace (snd (cmd_cleanup w rid s))
            = trace s @
              [Print Stdout (''Cleaning up run '' @ rid @ ''...''),
               Print Stdout (''Technique: '' @ technique r),
               Print Stdout ''Running stratus revert...'',
               Exec (revert_cmd r) (region_env (region r)),
               Print Stdout ''Running stratus cleanup...'',
               Exec (cleanup_cmd r) (region_env (region r)),
               Save (r\<lparr>cleaned_at := Some (now_iso_at w (clock s)), status := status_value CLEANED\<rparr>),
               Print Stdout ''Cleanup complete.''])
   \<and> (runs s rid = Some (Stored r) \<longrightarrow> status r \<noteq> status_value CLEANED \<longrightarrow>
      subprocess_run w (revert_cmd r) (region_env (region r)) = LaunchError m \<longrightarrow>
        cmd_cleanup w rid s =
          (Inr 1,
           s\<lparr>trace := trace s @
               [Print Stdout (''Cleaning up run '' @ rid @ ''...''),
                Print Stdout (''Technique: '' @ technique r),
                Print Stdout ''Running stratus revert...'',
                Exec (revert_cmd r) (region_env (region r)),
                Print Stderr (''ERROR during cleanup: '' @ m)]\<rparr>))
   \<and> (runs s rid = Some (Stored r) \<longrightarrow> status r \<noteq> status_value CLEANED \<longrightarrow>
      subprocess_run w (revert_cmd r) (region_env (region r)) = Completed p1 \<longrightarrow>
      subprocess_run w (cleanup_cmd r) (region_env (region r)) = LaunchError m \<longrightarrow>
        cmd_cleanup w rid s =
          (Inr 1,
           s\<lparr>trace := trace s @
               [Print Stdout (''Cleaning up run '' @ rid @ ''...''),
                Print Stdout (''Technique: '' @ technique r),
                Print Stdout ''Running stratus revert...'',
                Exec (revert_cmd r) (region_env (region r)),
                Print Stdout ''Running stratus cleanup...'',
                Exec (cleanup_cmd r) (region_env (region r)),
                Print Stderr (''ERROR during cleanup: '' @ m)]\<rparr>))"
  using cleanup_not_found [of s rid w] cleanup_already_cleaned [of s rid r w]
    cleanup_completes [of s rid r w p1 p2] cleanup_revert_not_launched [of s rid r w m]
    cleanup_cleanup_not_launched [of s rid r w p1 m]
  by blast

theorem cleanup_command_witness:
  "runs one_run demo_run_id = Some (Stored demo_record)
   \<and> status demo_record \<noteq> status_value CLEANED
   \<and> subprocess_run (demo_world\<lparr>subprocess_run := fails_on ''revert''\<rparr>)
        (revert_cmd demo_record) (region_env (region demo_record))
      = Completed \<lparr>returncode = 1, stdout = [], stderr = ''boom''\<rparr>
   \<and> subprocess_run (demo_world\<lparr>subprocess_run := fails_on ''revert''\<rparr>)
        (cleanup_cmd demo_record) (region_env (region demo_record))
      = Completed \<lparr>returncode = 0, stdout = [], stderr = []\<rparr>
   \<and> fst (cmd_cleanup (demo_world\<lparr>subprocess_run := fails_on ''revert''\<rparr>) demo_run_id one_run) = Inr 0
   \<and> stored_record (snd (cmd_cleanup (demo_world\<lparr>subprocess_run := fails_on ''revert''\<rparr>) demo_run_id one_run))
        demo_run_id
      = Some (demo_record\<lparr>cleaned_at := Some ''2024-01-15T12:00:00.000004+00:00'',
                          status := ''cleaned''\<rparr>)
   \<and> subprocess_run (demo_world\<lparr>subprocess_run := no_stratus\<rparr>)
        (revert_cmd demo_record) (region_env (region demo_record))
      = LaunchError ''[Errno 2] No such file or directory: stratus''
   \<and> cmd_cleanup (demo_world\<lparr>subprocess_run := no_stratus\<rparr>) demo_run_id one_run
      = (Inr 1,
         one_run\<lparr>trace :=
           [Print Stdout ''Cleaning up run 20240115T120000Z-1a2b3c4d...'',
            Print Stdout ''Technique: aws.persistence.iam-backdoor-user'',
            Print Stdout ''Running stratus revert...'',
            Exec [''stratus'', ''revert'', ''aws.persistence.iam-backdoor-user'']
              [(''AWS_DEFAULT_REGION'', ''us-east-1''), (''AWS_REGION'', ''us-east-1'')],
            Print Stderr ''ERROR during cleanup: [Errno 2] No such file or directory: stratus'']\<rparr>)"
proof -
  let ?w = "demo_world\<lparr>subprocess_run := fails_on ''revert''\<rparr>"
  let ?n = "demo_world\<lparr>subprocess_run := no_stratus\<rparr>"
  have stored: "runs one_run demo_run_id = Some (Stored demo_record)"
    by (simp add: one_run_def empty_state_def)
  have open_status: "status demo_record \<noteq> status_value CLEANED"
    by (simp add: demo_record_def)
  have revert: "subprocess_run ?w (revert_cmd demo_record) (region_env (region demo_record))
      = Completed \<lparr>returncode = 1, stdout = [], stderr = ''boom''\<rparr>"
    by (simp add: fails_on_def revert_cmd_def)
  have cleanup: "subprocess_run ?w (cleanup_cmd demo_record) (region_env (region demo_record))
      = Completed \<lparr>returncode = 0, stdout = [], stderr = []\<rparr>"
    by (simp add: fails_on_def cleanup_cmd_def all_ok_def)
  have missing: "subprocess_run ?n (revert_cmd demo_record) (region_env (region demo_record))
      = LaunchError ''[Errno 2] No such file or directory: stratus''"
    by (simp add: no_stratus_def)
  have now: "now_iso_at ?w (clock one_run) = ''2024-01-15T12:00:00.000004+00:00''"
  proof -
    have "clock one_run = 4"
      by (simp add: one_run_def empty_state_def)
    moreover have "now_iso_at demo_world 4 = ''2024-01-15T12:00:00.000004+00:00''"
      by code_simp
    ultimately show ?thesis
      by simp
  qed
  have rid: "run_id demo_record = demo_run_id"
    by (simp add: demo_record_def)
  from cleanup_command [of one_run demo_run_id ?w demo_record
         "\<lparr>returncode = 1, stdout = [], stderr = ''boom''\<rparr>"
         "\<lparr>returncode = 0, stdout = [], stderr = []\<rparr>"]
       stored open_status revert cleanup
  have "fst (cmd_cleanup ?w demo_run_id one_run) = Inr 0"
    and "runs (snd (cmd_cleanup ?w demo_run_id one_run))
         = (runs one_run)(run_id demo_record \<mapsto>
              Stored (demo_record\<lparr>cleaned_at := Some (now_iso_at ?w (clock one_run)),
                                  status := status_value CLEANED\<rparr>))"
    by blast+
  with now rid have cleaned: "fst (cmd_cleanup ?w demo_run_id one_run) = Inr 0"
    "stored_record (snd (cmd_cleanup ?w demo_run_id one_run)) demo_run_id
      = Some (demo_record\<lparr>cleaned_at := Some ''2024-01-15T12:00:00.000004+00:00'',
                          status := ''cleaned''\<rparr>)"
    by (simp_all add: stored_record_def)
  from cleanup_command [of one_run demo_run_id ?n demo_record _ _
         "''[Errno 2] No such file or directory: stratus''"]
       stored open_status missing
  have "cmd_cleanup ?n demo_run_id one_run
      = (Inr 1,
         one_run\<lparr>trace := trace one_run @
           [Print Stdout (''Cleaning up run '' @ demo_run_id @ ''...''),
            Print Stdout (''Technique: '' @ technique demo_record),
            Print Stdout ''Running stratus revert...'',
            Exec (revert_cmd demo_record) (region_env (region demo_record)),
            Print Stderr (''ERROR during cleanup: ''
                          @ ''[Errno 2] No such file or directory: stratus'')]\<rparr>)"
    by blast
  then have aborted: "cmd_cleanup ?n demo_run_id one_run
      = (Inr 1,
         one_run\<lparr>trace :=
           [Print Stdout ''Cleaning up run 20240115T120000Z-1a2b3c4d...'',
            Print Stdout ''Technique: aws.persistence.iam-backdoor-user'',
            Print Stdout ''Running stratus revert...'',
            Exec [''stratus'', ''revert'', ''aws.persistence.iam-backdoor-user'']
              [(''AWS_DEFAULT_REGION'', ''us-east-1''), (''AWS_REGION'', ''us-east-1'')],
            Print Stderr ''ERROR during cleanup: [Errno 2] No such file or directory: stratus'']\<rparr>)"
    by (simp add: one_run_def empty_state_def demo_run_id_def demo_record_def revert_cmd_def
        region_env_def)
  from stored open_status revert cleanup cleaned missing aborted show ?thesis
    by (simp only: simp_thms)
qed

section \<open>The run command\<close>

lemma run_cmd_state [simp]: "snd (run_cmd w cmd check env s) = emit (Exec cmd env) s"
  by (simp add: run_cmd_def Let_def split: proc_outcome.splits)

lemma run_cmd_result: "fst (run_cmd w cmd check env s) = fst (run_cmd w cmd check env s')"
  by (simp add: run_cmd_def Let_def split: proc_outcome.splits)

lemma run_cmd_checked_ok:
  "subprocess_run w cmd env = Completed p \<Longrightarrow> returncode p = 0 \<Longrightarrow>
   run_cmd w cmd True env s = (Inr p, emit (Exec cmd env) s)"
  by (simp add: run_cmd_def)

lemma run_cmd_raises:
  "fst (run_cmd w cmd check env s) = Inl e \<Longrightarrow>
   (\<exists>m. subprocess_run w cmd env = LaunchError m \<and> e = Exn OSError m)
   \<or> (\<exists>p. subprocess_run w cmd env = Completed p \<and> check \<and> returncode p \<noteq> 0
          \<and> e = Exn RuntimeError (''Command failed: '' @ join_words cmd @ [NL] @ ''stderr: '' @ stderr p))"
  by (auto simp: run_cmd_def Let_def split: proc_outcome.splits if_splits)

lemma now_iso_fields [simp]:
  "fst (now_iso w s) = now_iso_at w (clock s)"
  "lock (snd (now_iso w s)) = lock s" "runs (snd (now_iso w s)) = runs s"
  "history (snd (now_iso w s)) = history s" "clock (snd (now_iso w s)) = Suc (clock s)"
  "trace (snd (now_iso w s)) = trace s"
  by (simp_all add: now_iso_def)

lemma generate_run_id_fields [simp]:
  "lock (snd (generate_run_id w s)) = lock s" "runs (snd (generate_run_id w s)) = runs s"
  "history (snd (generate_run_id w s)) = history s" "clock (snd (generate_run_id w s)) = Suc (clock s)"
  "trace (snd (generate_run_id w s)) = trace s"
  by (simp_all add: generate_run_id_def)

lemma save_history_fields [simp]:
  "lock (save_history h n s) = lock s" "runs (save_history h n s) = runs s"
  "history (save_history h n s) = JsonList (last_n h n)" "clock (save_history h n s) = clock s"
  "trace (save_history h n s) = trace s @ [WriteHistory (last_n h n)]"
  by (simp_all add: save_history_def Let_def)

lemma load_history_cong: "history s = history s' \<Longrightarrow> load_history s = load_history s'"
  by (simp add: load_history_def read_history_def)

lemma select_technique_cong:
  "history s = history s' \<Longrightarrow>
   select_technique w ts a n s = select_technique w ts a n s'"
  by (simp add: select_technique_def load_history_cong [of s s'])


subsection \<open>The blocks of the run command\<close>

lemma caught_RuntimeError [simp]: "caught [RuntimeError] e \<longleftrightarrow> kind e = RuntimeError"
  by (cases "kind e") (simp_all add: caught_def)

lemma warmup_step_ok:
  assumes "fst (run_cmd w (warmup_cmd tech) True (region_env (arg_region args)) s) = Inr p"
  shows "warmup_step w args tech r s =
    (None,
     r\<lparr>warmup_at := Some (now_iso_at w (clock s)), status := status_value WARMUP_COMPLETE\<rparr>,
     save (r\<lparr>warmup_at := Some (now_iso_at w (clock s)), status := status_value WARMUP_COMPLETE\<rparr>)
       (snd (now_iso w (emit (Exec (warmup_cmd tech) (region_env (arg_region args))) s))))"
  using assms
  by (cases "run_cmd w (warmup_cmd tech) True (region_env (arg_region args)) s")
     (auto simp: warmup_step_def Let_def split_beta dest: arg_cong [where f = snd])

lemma warmup_step_failed:
  assumes "fst (run_cmd w (warmup_cmd tech) True (region_env (arg_region args)) s) = Inl e"
    and "kind e = RuntimeError"
  shows "warmup_step w args tech r s =
    (Some (Return 1),
     r\<lparr>status := status_value FAILED, error := Some (''Warmup failed: '' @ message e)\<rparr>,
     print Stderr (''ERROR: Warmup failed: '' @ message e)
       (save (r\<lparr>status := status_value FAILED, error := Some (''Warmup failed: '' @ message e)\<rparr>)
          (emit (Exec (warmup_cmd tech) (region_env (arg_region args))) s)))"
  using assms
  by (cases "run_cmd w (warmup_cmd tech) True (region_env (arg_region args)) s")
     (auto simp: warmup_step_def Let_def split_beta dest: arg_cong [where f = snd])

lemma warmup_step_raised:
  assumes "fst (run_cmd w (warmup_cmd tech) True (region_env (arg_region args)) s) = Inl e"
    and "kind e \<noteq> RuntimeError"
  shows "warmup_step w args tech r s =
    (Some (Raise e), r, emit (Exec (warmup_cmd tech) (region_env (arg_region args))) s)"
  using assms
  by (cases "run_cmd w (warmup_cmd tech) True (region_env (arg_region args)) s")
     (auto simp: warmup_step_def Let_def split_beta dest: arg_cong [where f = snd])

lemma detonate_step_ok:
  assumes "fst (run_cmd w (detonate_cmd args tech) True (region_env (arg_region args)) s) = Inr p"
  shows "detonate_step w args tech r s =
    (if arg_mode args = mode_value VALIDATE then
       (None,
        r\<lparr>detonated_at := Some (now_iso_at w (clock s)),
          cleaned_at := Some (now_iso_at w (Suc (clock s))),
          status := status_value CLEANED\<rparr>,
        save (r\<lparr>detonated_at := Some (now_iso_at w (clock s)),
                cleaned_at := Some (now_iso_at w (Suc (clock s))),
                status := status_value CLEANED\<rparr>)
          (snd (now_iso w (snd (now_iso w
             (emit (Exec (detonate_cmd args tech) (region_env (arg_region args))) s))))))
     else
       (None,
        r\<lparr>detonated_at := Some (now_iso_at w (clock s)), status := status_value DETONATED\<rparr>,
        save (r\<lparr>detonated_at := Some (now_iso_at w (clock s)), status := status_value DETONATED\<rparr>)
          (snd (now_iso w (emit (Exec (detonate_cmd args tech) (region_env (arg_region args))) s)))))"
  using assms
  by (cases "run_cmd w (detonate_cmd args tech) True (region_env (arg_region args)) s")
     (auto simp: detonate_step_def Let_def split_beta dest: arg_cong [where f = snd])

lemma detonate_step_failed:
  assumes "fst (run_cmd w (detonate_cmd args tech) True (region_env (arg_region args)) s) = Inl e"
    and "kind e = RuntimeError"
  shows "detonate_step w args tech r s =
    (Some (Return 1),
     r\<lparr>status := status_value FAILED, error := Some (''Detonate failed: '' @ message e)\<rparr>,
     print Stderr (''ERROR: Detonate failed: '' @ message e)
       (save (r\<lparr>status := status_value FAILED, error := Some (''Detonate failed: '' @ message e)\<rparr>)
          (emit (Exec (detonate_cmd args tech) (region_env (arg_region args))) s)))"
  using assms
  by (cases "run_cmd w (detonate_cmd args tech) True (region_env (arg_region args)) s")
     (auto simp: detonate_step_def Let_def split_beta dest: arg_cong [where f = snd])

lemma detonate_step_raised:
  assumes "fst (run_cmd w (detonate_cmd args tech) True (region_env (arg_region args)) s) = Inl e"
    and "kind e \<noteq> RuntimeError"
  shows "detonate_step w args tech r s =
    (Some (Raise e), r, emit (Exec (detonate_cmd args tech) (region_env (arg_region args))) s)"
  using assms
  by (cases "run_cmd w (detonate_cmd args tech) True (region_env (arg_region args)) s")
     (auto simp: detonate_step_def Let_def split_beta dest: arg_cong [where f = snd])

lemma dwell_step_frame [simp]:
  "lock (snd (dwell_step w args s)) = lock s" "runs (snd (dwell_step w args s)) = runs s"
  "history (snd (dwell_step w args s)) = history s" "clock (snd (dwell_step w args s)) = clock s"
  "saved_statuses (trace (snd (dwell_step w args s))) = saved_statuses (trace s)"
  by (simp_all add: dwell_step_def split: sum.splits)

lemma dwell_step_ok:
  "dwell_min args \<le> dwell_max args \<Longrightarrow> fst (dwell_step w args s) = None"
  by (simp add: dwell_step_def randint_def)

lemma history_step_frame [simp]:
  "lock (snd (history_step tech rid s)) = lock s" "runs (snd (history_step tech rid s)) = runs s"
  "clock (snd (history_step tech rid s)) = clock s"
  "saved_statuses (trace (snd (history_step tech rid s))) = saved_statuses (trace s)"
  by (simp_all add: history_step_def Let_def split: sum.splits)

lemma history_step_ok:
  "load_history s = Inr h \<Longrightarrow> fst (history_step tech rid s) = Return 0"
  by (simp add: history_step_def Let_def)

lemma history_step_raised:
  "load_history s = Inl e \<Longrightarrow> history_step tech rid s = (Raise e, s)"
  by (simp add: history_step_def)

lemma history_step_outcome:
  "fst (history_step tech rid s) = Return 0 \<or> (\<exists>e. fst (history_step tech rid s) = Raise e)"
  by (simp add: history_step_def Let_def split: sum.splits)

lemma create_record_eq:
  "fst (create_record w args (arg_account args) tech s) = started_record w args tech s"
  "lock (snd (create_record w args acct tech s)) = lock s"
  "history (snd (create_record w args acct tech s)) = history s"
  "clock (snd (create_record w args acct tech s)) = Suc (Suc (clock s))"
  "runs (snd (create_record w args acct tech s))
   = (runs s)(run_id (fst (create_record w args acct tech s))
              \<mapsto> Stored (fst (create_record w args acct tech s)))"
  "saved_statuses (trace (snd (create_record w args acct tech s)))
   = saved_statuses (trace s) @ [status_value STARTED]"
  by (simp_all add: create_record_def started_record_def generate_run_id_def now_iso_def Let_def)


subsection \<open>What every run does\<close>

lemma warmup_step_cases:
  obtains (ok) p where "fst (run_cmd w (warmup_cmd tech) True (region_env (arg_region args)) s) = Inr p"
  | (failed) e where "fst (run_cmd w (warmup_cmd tech) True (region_env (arg_region args)) s) = Inl e"
      and "kind e = RuntimeError"
  | (raised) e where "fst (run_cmd w (warmup_cmd tech) True (region_env (arg_region args)) s) = Inl e"
      and "kind e \<noteq> RuntimeError"
  by (cases "fst (run_cmd w (warmup_cmd tech) True (region_env (arg_region args)) s)") auto

lemma detonate_step_cases:
  obtains (ok) p where "fst (run_cmd w (detonate_cmd args tech) True (region_env (arg_region args)) s) = Inr p"
  | (failed) e where "fst (run_cmd w (detonate_cmd args tech) True (region_env (arg_region args)) s) = Inl e"
      and "kind e = RuntimeError"
  | (raised) e where "fst (run_cmd w (detonate_cmd args tech) True (region_env (arg_region args)) s) = Inl e"
      and "kind e \<noteq> RuntimeError"
  by (cases "fst (run_cmd w (detonate_cmd args tech) True (region_env (arg_region args)) s)") auto

lemma warmup_step_general:
  "lock (snd (snd (warmup_step w args tech r s))) = lock s"
  "history (snd (snd (warmup_step w args tech r s))) = history s"
  "saved_statuses (trace (snd (snd (warmup_step w args tech r s))))
   = saved_statuses (trace s) @ step_saves WARMUP_COMPLETE (fst (warmup_step w args tech r s))"
  by (cases rule: warmup_step_cases [of w tech args s];
      simp add: warmup_step_ok warmup_step_failed warmup_step_raised)+

lemma detonate_step_general:
  "lock (snd (snd (detonate_step w args tech r s))) = lock s"
  "history (snd (snd (detonate_step w args tech r s))) = history s"
  "saved_statuses (trace (snd (snd (detonate_step w args tech r s))))
   = saved_statuses (trace s) @ step_saves (detonated_status args) (fst (detonate_step w args tech r s))"
  by (cases rule: detonate_step_cases [of w args tech s];
      simp add: detonate_step_ok detonate_step_failed detonate_step_raised detonated_status_def)+

lemma dwell_step_outcome:
  "fst (dwell_step w args s) = None \<or> (\<exists>e. fst (dwell_step w args s) = Some (Raise e))"
  by (simp add: dwell_step_def split: sum.splits)

lemma run_steps_lock: "lock (snd (snd (run_steps w args tech r s))) = lock s"
  by (simp add: run_steps_def split_beta warmup_step_general detonate_step_general
      split: option.splits)

lemma run_steps_saved:
  "\<exists>xs. saved_statuses (trace (snd (snd (run_steps w args tech r s)))) = saved_statuses (trace s) @ xs
     \<and> status_value STARTED # xs @ handler_saves (fst (run_steps w args tech r s))
         \<in> set (persisted_sequences args)"
proof -
  obtain o1 r1 s1 where w1: "warmup_step w args tech r s = (o1, r1, s1)"
    by (cases "warmup_step w args tech r s") auto
  with warmup_step_general(3) [of w args tech r s]
  have sv1: "saved_statuses (trace s1) = saved_statuses (trace s) @ step_saves WARMUP_COMPLETE o1"
    by simp
  show ?thesis
  proof (cases o1)
    case (Some out)
    with w1 sv1 show ?thesis
      by (cases out) (simp_all add: run_steps_def persisted_sequences_def)
  next
    case None
    note o1 = this
    obtain o2 s2 where d2: "dwell_step w args s1 = (o2, s2)"
      by (cases "dwell_step w args s1") auto
    with dwell_step_frame(5) [of w args s1]
    have sv2: "saved_statuses (trace s2) = saved_statuses (trace s1)"
      by simp
    show ?thesis
    proof (cases o2)
      case (Some out)
      with dwell_step_outcome [of w args s1] d2 obtain e where "out = Raise e"
        by auto
      with Some o1 w1 d2 sv1 sv2 show ?thesis
        by (simp add: run_steps_def persisted_sequences_def)
    next
      case None
      note o2 = this
      obtain o3 r3 s3 where d3: "detonate_step w args tech r1 s2 = (o3, r3, s3)"
        by (cases "detonate_step w args tech r1 s2") auto
      with detonate_step_general(3) [of w args tech r1 s2]
      have sv3: "saved_statuses (trace s3)
          = saved_statuses (trace s2) @ step_saves (detonated_status args) o3"
        by simp
      show ?thesis
      proof (cases o3)
        case (Some out)
        with o1 o2 w1 d2 d3 sv1 sv2 sv3 show ?thesis
          by (cases out) (simp_all add: run_steps_def persisted_sequences_def)
      next
        case None
        obtain o4 s4 where h4: "history_step tech (run_id r3) s3 = (o4, s4)"
          by (cases "history_step tech (run_id r3) s3") auto
        with history_step_frame(4) [of tech "run_id r3" s3]
        have sv4: "saved_statuses (trace s4) = saved_statuses (trace s3)"
          by simp
        from history_step_outcome [of tech "run_id r3" s3] h4
        have "o4 = Return 0 \<or> (\<exists>e. o4 = Raise e)"
          by simp
        with None o1 o2 w1 d2 d3 h4 sv1 sv2 sv3 sv4 show ?thesis
          by (auto simp: run_steps_def persisted_sequences_def)
      qed
    qed
  qed
qed


lemma release_fields [simp]:
  "runs (release w b s) = runs s" "history (release w b s) = history s"
  "clock (release w b s) = clock s" "trace (release w b s) = trace s"
  by (simp_all add: release_def split: option.splits)

lemma release_own:
  "lock s = Some \<lparr>content = c, holder = Some (getpid w)\<rparr> \<Longrightarrow>
   lock (release w True s) = Some \<lparr>content = c, holder = None\<rparr>"
  by (simp add: release_def)

lemma leave_try_fields [simp]:
  "lock (snd (leave_try out ro s)) = lock s"
  "history (snd (leave_try out ro s)) = history s"
  "clock (snd (leave_try out ro s)) = clock s"
  by (simp_all add: leave_try_def Let_def split: outcome.splits option.splits)

lemma leave_try_saved:
  "saved_statuses (trace (snd (leave_try out ro s)))
   = saved_statuses (trace s) @ (case ro of None \<Rightarrow> [] | Some r \<Rightarrow> handler_saves out)"
  by (cases out; cases ro) (simp_all add: leave_try_def Let_def)

lemma run_body_lock: "lock (snd (snd (run_body w args s))) = lock s"
  by (simp add: run_body_def Let_def split_beta run_steps_lock create_record_eq
      split: sum.splits)

lemma run_body_saved:
  "\<exists>xs \<in> set (persisted_sequences args).
     saved_statuses (trace (snd (snd (run_body w args s))))
       @ (case fst (snd (run_body w args s)) of
            None \<Rightarrow> [] | Some r \<Rightarrow> handler_saves (fst (run_body w args s)))
     = saved_statuses (trace s) @ xs"
proof -
  have none: "[] \<in> set (persisted_sequences args)"
    by (simp add: persisted_sequences_def)
  have steps: "\<exists>xs \<in> set (persisted_sequences args).
      saved_statuses (trace (snd (snd (run_steps w args tech r s'))))
        @ handler_saves (fst (run_steps w args tech r s'))
      = saved_statuses (trace s) @ xs"
    if "saved_statuses (trace s') = saved_statuses (trace s) @ [status_value STARTED]"
    for tech r s'
    using run_steps_saved [of w args tech r s'] that by auto
  show ?thesis
    using none
    by (auto simp: run_body_def Let_def split_beta create_record_eq
        intro!: steps split: sum.splits)
qed

lemma cmd_run_free:
  assumes "holder_of s = None"
  shows "cmd_run w args s =
     (let s1 = s\<lparr>lock := Some \<lparr>content = Text (pid_line (getpid w)), holder = Some (getpid w)\<rparr>\<rparr>;
          b = run_body w args s1;
          l = leave_try (fst b) (fst (snd b)) (snd (snd b))
      in (Inr (fst l), release w True (snd l)))"
  using assms by (simp add: cmd_run_def acquire_free Let_def split_beta)

lemma cmd_run_held:
  assumes "holder_of s \<noteq> None"
  obtains v where "cmd_run w args s =
     (Inr 1,
      print Stderr ''If this is stale, the lock will auto-release when the process exits.''
        (print Stderr (''ERROR: Another run is in progress (PID: '' @ str_opt_int v @ '')'') s))"
proof -
  obtain v where "get_holder_pid s = Inr v"
    using get_holder_pid_returns by blast
  with assms have "cmd_run w args s =
     (Inr 1,
      print Stderr ''If this is stale, the lock will auto-release when the process exits.''
        (print Stderr (''ERROR: Another run is in progress (PID: '' @ str_opt_int v @ '')'') s))"
    by (simp add: cmd_run_def acquire_held)
  then show ?thesis
    by (rule that)
qed

lemma cmd_run_holder: "holder_of (snd (cmd_run w args s)) = holder_of s"
proof (cases "holder_of s = None")
  case True
  let ?s1 = "s\<lparr>lock := Some \<lparr>content = Text (pid_line (getpid w)), holder = Some (getpid w)\<rparr>\<rparr>"
  let ?b = "run_body w args ?s1"
  let ?l = "leave_try (fst ?b) (fst (snd ?b)) (snd (snd ?b))"
  have "lock (snd ?l) = Some \<lparr>content = Text (pid_line (getpid w)), holder = Some (getpid w)\<rparr>"
    by (simp add: run_body_lock)
  then have "lock (release w True (snd ?l)) = Some \<lparr>content = Text (pid_line (getpid w)), holder = None\<rparr>"
    by (rule release_own)
  with True show ?thesis
    by (simp add: cmd_run_free Let_def holder_of_def)
next
  case False
  obtain v where "cmd_run w args s =
     (Inr 1,
      print Stderr ''If this is stale, the lock will auto-release when the process exits.''
        (print Stderr (''ERROR: Another run is in progress (PID: '' @ str_opt_int v @ '')'') s))"
    using False by (rule cmd_run_held)
  then show ?thesis
    by (simp add: holder_of_def)
qed

lemma cmd_run_saved:
  "\<exists>xs \<in> set (persisted_sequences args).
     saved_statuses (trace (snd (cmd_run w args s))) = saved_statuses (trace s) @ xs"
proof (cases "holder_of s = None")
  case True
  let ?s1 = "s\<lparr>lock := Some \<lparr>content = Text (pid_line (getpid w)), holder = Some (getpid w)\<rparr>\<rparr>"
  have "saved_statuses (trace ?s1) = saved_statuses (trace s)"
    by simp
  with run_body_saved [of args w ?s1] True show ?thesis
    by (simp add: cmd_run_free Let_def leave_try_saved)
next
  case False
  have "[] \<in> set (persisted_sequences args)"
    by (simp add: persisted_sequences_def)
  moreover obtain v where "cmd_run w args s =
     (Inr 1,
      print Stderr ''If this is stale, the lock will auto-release when the process exits.''
        (print Stderr (''ERROR: Another run is in progress (PID: '' @ str_opt_int v @ '')'') s))"
    using False by (rule cmd_run_held)
  ultimately show ?thesis
    by simp
qed


subsection \<open>The paths of a run\<close>

lemma started_record_lock [simp]:
  "started_record w args tech (s\<lparr>lock := l\<rparr>) = started_record w args tech s"
  by (simp add: started_record_def)

lemma run_id_started [simp]:
  "run_id (started_record w args tech s) = now_stamp_at w (clock s) @ ''-'' @ urandom_hex w"
  by (simp add: started_record_def)

lemma run_cmd_ok_fst:
  "subprocess_run w cmd env = Completed p \<Longrightarrow> returncode p = 0 \<Longrightarrow>
   fst (run_cmd w cmd True env s) = Inr p"
  by (simp add: run_cmd_checked_ok)

lemma run_body_started:
  assumes "aws_identity w = Inr (arg_account args, arn)"
    and "techniques_of w (arg_tactic args) = Inr techniques" and "techniques \<noteq> []"
    and "select_technique w techniques (\<not> allow_repeat args) (avoid_last_n args) s = Inr tech"
  shows "run_body w args s =
     (fst (run_steps w args tech (started_record w args tech s)
             (snd (create_record w args (arg_account args) tech s))),
      Some (fst (snd (run_steps w args tech (started_record w args tech s)
             (snd (create_record w args (arg_account args) tech s))))),
      snd (snd (run_steps w args tech (started_record w args tech s)
             (snd (create_record w args (arg_account args) tech s)))))"
  using assms by (simp add: run_body_def split_beta create_record_eq)


text \<open>The warmup fails: what the \<open>try\<close> statement leaves behind.\<close>

lemma warmup_failure_leaves:
  fixes w args tech r s
  defines "st \<equiv> run_steps w args tech r s"
  defines "l \<equiv> leave_try (fst st) (Some (fst (snd st))) (snd (snd st))"
  assumes "fst (run_cmd w (warmup_cmd tech) True (region_env (arg_region args)) s) = Inl e"
  shows "fst l = 1"
    and "runs (snd l)
         = (runs s)(run_id r \<mapsto> Stored (r\<lparr>status := status_value FAILED,
              error := Some (if kind e = RuntimeError then ''Warmup failed: '' @ message e
                             else message e)\<rparr>))"
    and "saved_statuses (trace (snd l)) = saved_statuses (trace s) @ [status_value FAILED]"
  using assms(3) unfolding l_def st_def
  by (cases "kind e = RuntimeError";
      simp add: run_steps_def warmup_step_failed warmup_step_raised leave_try_def Let_def)+


text \<open>Warmup and detonation succeed: the state before the history is updated.\<close>

lemma run_steps_through:
  fixes w args tech r s
  defines "a \<equiv> warmup_step w args tech r s"
  defines "b \<equiv> dwell_step w args (snd (snd a))"
  defines "d \<equiv> detonate_step w args tech (fst (snd a)) (snd b)"
  assumes "fst a = None" and "fst b = None" and "fst d = None"
  shows "run_steps w args tech r s
         = (fst (history_step tech (run_id (fst (snd d))) (snd (snd d))), fst (snd d),
            snd (history_step tech (run_id (fst (snd d))) (snd (snd d))))"
  using assms(4-6) unfolding a_def b_def d_def
  by (simp add: run_steps_def split_beta split: option.splits prod.splits)

lemma run_steps_detonated:
  fixes w args tech r s
  defines "env \<equiv> region_env (arg_region args)"
  defines "a \<equiv> warmup_step w args tech r s"
  defines "b \<equiv> dwell_step w args (snd (snd a))"
  defines "d \<equiv> detonate_step w args tech (fst (snd a)) (snd b)"
  assumes warm: "subprocess_run w (warmup_cmd tech) env = Completed p1" "returncode p1 = 0"
    and dwell: "dwell_min args \<le> dwell_max args"
    and det: "subprocess_run w (detonate_cmd args tech) env = Completed p2" "returncode p2 = 0"
  shows "run_steps w args tech r s
         = (fst (history_step tech (run_id r) (snd (snd d))), fst (snd d),
            snd (history_step tech (run_id r) (snd (snd d))))"
    and "fst (snd d)
         = (if arg_mode args = mode_value VALIDATE
            then r\<lparr>warmup_at := Some (now_iso_at w (clock s)),
                   detonated_at := Some (now_iso_at w (Suc (clock s))),
                   cleaned_at := Some (now_iso_at w (Suc (Suc (clock s)))),
                   status := status_value CLEANED\<rparr>
            else r\<lparr>warmup_at := Some (now_iso_at w (clock s)),
                   detonated_at := Some (now_iso_at w (Suc (clock s))),
                   status := status_value DETONATED\<rparr>)"
    and "runs (snd (snd d)) = (runs s)(run_id r \<mapsto> Stored (fst (snd d)))"
    and "history (snd (snd d)) = history s"
    and "saved_statuses (trace (snd (snd d)))
         = saved_statuses (trace s)
           @ [status_value WARMUP_COMPLETE, status_value (detonated_status args)]"
proof -
  have "fst (run_cmd w (warmup_cmd tech) True (region_env (arg_region args)) s) = Inr p1"
    using warm unfolding env_def by (rule run_cmd_ok_fst)
  note wok = warmup_step_ok [OF this, of r]
  have a: "fst a = None"
    and ra: "fst (snd a) = r\<lparr>warmup_at := Some (now_iso_at w (clock s)),
                              status := status_value WARMUP_COMPLETE\<rparr>"
    and ca: "clock (snd (snd a)) = Suc (clock s)" and ha: "history (snd (snd a)) = history s"
    and ua: "runs (snd (snd a)) = (runs s)(run_id r \<mapsto> Stored (fst (snd a)))"
    and ta: "saved_statuses (trace (snd (snd a)))
             = saved_statuses (trace s) @ [status_value WARMUP_COMPLETE]"
    by (simp_all add: a_def wok)
  have b: "fst b = None"
    unfolding b_def using dwell by (rule dwell_step_ok)
  have cb: "clock (snd b) = Suc (clock s)" and hb: "history (snd b) = history s"
    and ub: "runs (snd b) = (runs s)(run_id r \<mapsto> Stored (fst (snd a)))"
    and tb: "saved_statuses (trace (snd b))
             = saved_statuses (trace s) @ [status_value WARMUP_COMPLETE]"
    by (simp_all add: b_def ca ha ua ta)
  have "fst (run_cmd w (detonate_cmd args tech) True (region_env (arg_region args)) (snd b)) = Inr p2"
    using det unfolding env_def by (rule run_cmd_ok_fst)
  note dok = detonate_step_ok [OF this, of "fst (snd a)"]
  have d: "fst d = None"
    by (simp add: d_def dok)
  show rd: "fst (snd d)
         = (if arg_mode args = mode_value VALIDATE
            then r\<lparr>warmup_at := Some (now_iso_at w (clock s)),
                   detonated_at := Some (now_iso_at w (Suc (clock s))),
                   cleaned_at := Some (now_iso_at w (Suc (Suc (clock s)))),
                   status := status_value CLEANED\<rparr>
            else r\<lparr>warmup_at := Some (now_iso_at w (clock s)),
                   detonated_at := Some (now_iso_at w (Suc (clock s))),
                   status := status_value DETONATED\<rparr>)"
    unfolding d_def dok by (simp add: cb ra)
  then have "run_id (fst (snd d)) = run_id r"
    by simp
  with run_steps_through [of w args tech r s] a b d
  show "run_steps w args tech r s
         = (fst (history_step tech (run_id r) (snd (snd d))), fst (snd d),
            snd (history_step tech (run_id r) (snd (snd d))))"
    by (simp add: a_def b_def d_def)
  have "run_id (fst (snd a)) = run_id r"
    by (simp add: ra)
  then show "runs (snd (snd d)) = (runs s)(run_id r \<mapsto> Stored (fst (snd d)))"
    by (simp add: d_def dok ub)
  show "history (snd (snd d)) = history s"
    by (simp add: d_def dok hb)
  show "saved_statuses (trace (snd (snd d)))
         = saved_statuses (trace s)
           @ [status_value WARMUP_COMPLETE, status_value (detonated_status args)]"
    by (simp add: d_def dok tb detonated_status_def)
qed

lemma cmd_run_reaches:
  fixes w args tech s
  defines "sA \<equiv> s\<lparr>lock := Some \<lparr>content = Text (pid_line (getpid w)), holder = Some (getpid w)\<rparr>\<rparr>"
  defines "sB \<equiv> snd (create_record w args (arg_account args) tech sA)"
  defines "st \<equiv> run_steps w args tech (started_record w args tech s) sB"
  defines "l \<equiv> leave_try (fst st) (Some (fst (snd st))) (snd (snd st))"
  assumes free: "holder_of s = None"
    and ident: "aws_identity w = Inr (arg_account args, arn)"
    and cat: "techniques_of w (arg_tactic args) = Inr techniques" "techniques \<noteq> []"
    and sel: "select_technique w techniques (\<not> allow_repeat args) (avoid_last_n args) s = Inr tech"
  shows "cmd_run w args s = (Inr (fst l), release w True (snd l))"
    and "clock sB = Suc (Suc (clock s))"
    and "history sB = history s"
    and "runs sB = (runs s)(run_id (started_record w args tech s)
                            \<mapsto> Stored (started_record w args tech s))"
    and "saved_statuses (trace sB) = saved_statuses (trace s) @ [status_value STARTED]"
proof -
  have "history sA = history s"
    by (simp add: sA_def)
  then have "select_technique w techniques (\<not> allow_repeat args) (avoid_last_n args) sA = Inr tech"
    using sel select_technique_cong [of sA s] by simp
  from run_body_started [OF ident cat this]
  have "run_body w args sA = (fst st, Some (fst (snd st)), snd (snd st))"
    by (simp add: st_def sB_def sA_def)
  with free show "cmd_run w args s = (Inr (fst l), release w True (snd l))"
    by (simp add: cmd_run_free Let_def l_def sA_def [symmetric])
  show "clock sB = Suc (Suc (clock s))" and "history sB = history s"
    and "saved_statuses (trace sB) = saved_statuses (trace s) @ [status_value STARTED]"
    by (simp_all add: sB_def create_record_eq sA_def)
  show "runs sB = (runs s)(run_id (started_record w args tech s)
                            \<mapsto> Stored (started_record w args tech s))"
    by (simp add: sB_def create_record_eq sA_def)
qed


lemma run_warmup_failure:
  assumes free: "holder_of s = None"
    and ident: "aws_identity w = Inr (arg_account args, arn)"
    and cat: "techniques_of w (arg_tactic args) = Inr techniques" "techniques \<noteq> []"
    and sel: "select_technique w techniques (\<not> allow_repeat args) (avoid_last_n args) s = Inr tech"
    and fail: "fst (run_cmd w (warmup_cmd tech) True (region_env (arg_region args)) s) = Inl e"
  shows "fst (cmd_run w args s) = Inr 1"
    and "runs (snd (cmd_run w args s))
         = (runs s)(run_id (started_record w args tech s) \<mapsto>
             Stored ((started_record w args tech s)
                       \<lparr>status := status_value FAILED,
                        error := Some (if kind e = RuntimeError
                                       then ''Warmup failed: '' @ message e else message e)\<rparr>))"
    and "saved_statuses (trace (snd (cmd_run w args s)))
         = saved_statuses (trace s) @ [status_value STARTED, status_value FAILED]"
proof -
  note reach = cmd_run_reaches [OF free ident cat sel]
  let ?sA = "s\<lparr>lock := Some \<lparr>content = Text (pid_line (getpid w)), holder = Some (getpid w)\<rparr>\<rparr>"
  let ?sB = "snd (create_record w args (arg_account args) tech ?sA)"
  have "fst (run_cmd w (warmup_cmd tech) True (region_env (arg_region args)) ?sB) = Inl e"
    using fail run_cmd_result [of w "warmup_cmd tech" True "region_env (arg_region args)" ?sB s]
    by simp
  note leaves = warmup_failure_leaves [OF this, of "started_record w args tech s"]
  show "fst (cmd_run w args s) = Inr 1"
    by (simp add: reach(1) leaves(1))
  show "runs (snd (cmd_run w args s))
         = (runs s)(run_id (started_record w args tech s) \<mapsto>
             Stored ((started_record w args tech s)
                       \<lparr>status := status_value FAILED,
                        error := Some (if kind e = RuntimeError
                                       then ''Warmup failed: '' @ message e else message e)\<rparr>))"
    unfolding reach(1) by (simp add: leaves(2) reach(4))
  show "saved_statuses (trace (snd (cmd_run w args s)))
         = saved_statuses (trace s) @ [status_value STARTED, status_value FAILED]"
    unfolding reach(1) by (simp add: leaves(3) reach(5))
qed

lemma run_detonated:
  fixes w args tech s
  defines "env \<equiv> region_env (arg_region args)"
  defines "final \<equiv> detonated_record w args (started_record w args tech s) (Suc (Suc (clock s)))"
  assumes free: "holder_of s = None"
    and ident: "aws_identity w = Inr (arg_account args, arn)"
    and cat: "techniques_of w (arg_tactic args) = Inr techniques" "techniques \<noteq> []"
    and sel: "select_technique w techniques (\<not> allow_repeat args) (avoid_last_n args) s = Inr tech"
    and warm: "subprocess_run w (warmup_cmd tech) env = Completed p1" "returncode p1 = 0"
    and dwell: "dwell_min args \<le> dwell_max args"
    and det: "subprocess_run w (detonate_cmd args tech) env = Completed p2" "returncode p2 = 0"
  shows "load_history s = Inr h \<Longrightarrow> fst (cmd_run w args s) = Inr 0"
    and "load_history s = Inr h \<Longrightarrow>
         runs (snd (cmd_run w args s)) = (runs s)(run_id final \<mapsto> Stored final)"
    and "load_history s = Inr h \<Longrightarrow>
         saved_statuses (trace (snd (cmd_run w args s)))
         = saved_statuses (trace s)
           @ [status_value STARTED, status_value WARMUP_COMPLETE, status_value (detonated_status args)]"
    and "load_history s = Inr h \<Longrightarrow>
         history (snd (cmd_run w args s)) = JsonList (last_n (h @ [tech_id tech]) 20)"
    and "load_history s = Inl e \<Longrightarrow> fst (cmd_run w args s) = Inr 1"
    and "load_history s = Inl e \<Longrightarrow>
         runs (snd (cmd_run w args s))
         = (runs s)(run_id final \<mapsto>
              Stored (final\<lparr>status := status_value FAILED, error := Some (message e)\<rparr>))"
    and "load_history s = Inl e \<Longrightarrow>
         saved_statuses (trace (snd (cmd_run w args s)))
         = saved_statuses (trace s)
           @ [status_value STARTED, status_value WARMUP_COMPLETE, status_value (detonated_status args),
              status_value FAILED]"
proof -
  note reach = cmd_run_reaches [OF free ident cat sel]
  let ?r0 = "started_record w args tech s"
  let ?sA = "s\<lparr>lock := Some \<lparr>content = Text (pid_line (getpid w)), holder = Some (getpid w)\<rparr>\<rparr>"
  let ?sB = "snd (create_record w args (arg_account args) tech ?sA)"
  let ?a = "warmup_step w args tech ?r0 ?sB"
  let ?b = "dwell_step w args (snd (snd ?a))"
  let ?d = "detonate_step w args tech (fst (snd ?a)) (snd ?b)"
  let ?sD = "snd (snd ?d)"
  note through = run_steps_detonated [OF warm [unfolded env_def] dwell det [unfolded env_def], of ?r0 ?sB]
  have fin: "fst (snd ?d) = final"
    by (simp add: through(2) reach(2) final_def detonated_record_def)
  have rid: "run_id final = run_id ?r0"
    by (simp add: final_def detonated_record_def)
  have hist: "load_history ?sD = load_history s"
    by (rule load_history_cong) (simp add: through(4) reach(3))
  have runs: "runs ?sD = (runs s)(run_id final \<mapsto> Stored final)"
    by (simp add: through(3) reach(4) fin rid)
  have saved: "saved_statuses (trace ?sD)
      = saved_statuses (trace s)
        @ [status_value STARTED, status_value WARMUP_COMPLETE, status_value (detonated_status args)]"
    by (simp add: through(5) reach(5))
  have steps: "run_steps w args tech ?r0 ?sB
      = (fst (history_step tech (run_id ?r0) ?sD), final, snd (history_step tech (run_id ?r0) ?sD))"
    using through(1) fin by simp
  {
    assume h: "load_history s = Inr h"
    with hist have ok: "history_step tech (run_id ?r0) ?sD
        = (Return 0, snd (history_step tech (run_id ?r0) ?sD))"
      using history_step_ok [of ?sD h tech "run_id ?r0"] by (simp add: prod_eq_iff)
    show "fst (cmd_run w args s) = Inr 0"
      unfolding reach(1) steps by (subst ok) (simp add: leave_try_def)
    show "runs (snd (cmd_run w args s)) = (runs s)(run_id final \<mapsto> Stored final)"
      unfolding reach(1) steps by (subst ok) (simp add: leave_try_def runs)
    show "saved_statuses (trace (snd (cmd_run w args s)))
         = saved_statuses (trace s)
           @ [status_value STARTED, status_value WARMUP_COMPLETE, status_value (detonated_status args)]"
      unfolding reach(1) steps by (subst ok) (simp add: leave_try_def saved)
    from h hist have "history (snd (history_step tech (run_id ?r0) ?sD))
        = JsonList (last_n (h @ [tech_id tech]) 20)"
      by (simp add: history_step_def Let_def)
    then show "history (snd (cmd_run w args s)) = JsonList (last_n (h @ [tech_id tech]) 20)"
      unfolding reach(1) steps by (subst ok) (simp add: leave_try_def)
  }
  {
    assume e: "load_history s = Inl e"
    with hist have raised: "history_step tech (run_id ?r0) ?sD = (Raise e, ?sD)"
      using history_step_raised [of ?sD e tech "run_id ?r0"] by simp
    show "fst (cmd_run w args s) = Inr 1"
      unfolding reach(1) steps raised by (simp add: leave_try_def Let_def)
    show "runs (snd (cmd_run w args s))
         = (runs s)(run_id final \<mapsto>
              Stored (final\<lparr>status := status_value FAILED, error := Some (message e)\<rparr>))"
      unfolding reach(1) steps raised by (simp add: leave_try_def Let_def runs)
    show "saved_statuses (trace (snd (cmd_run w args s)))
         = saved_statuses (trace s)
           @ [status_value STARTED, status_value WARMUP_COMPLETE, status_value (detonated_status args),
              status_value FAILED]"
      unfolding reach(1) steps raised by (simp add: leave_try_def Let_def saved)
  }
qed


subsection \<open>The concrete runs\<close>

lemma demo_select:
  "select_technique (demo_world\<lparr>subprocess_run := f\<rparr>) demo_catalog True 5 empty_state = Inr first_technique"
  "select_technique (demo_world\<lparr>subprocess_run := f\<rparr>) demo_catalog False 5 bad_history = Inr first_technique"
  by (simp_all add: select_technique_def load_history_def read_history_def empty_state_def demo_catalog_def
      demo_world_def last_n_def choice_def first_technique_def)

lemma demo_clock:
  "now_iso_at demo_world 0 = ''2024-01-15T12:00:00.000000+00:00''"
  "now_iso_at demo_world (Suc 0) = ''2024-01-15T12:00:00.000001+00:00''"
  "now_iso_at demo_world (Suc (Suc 0)) = ''2024-01-15T12:00:00.000002+00:00''"
  "now_iso_at demo_world (Suc (Suc (Suc 0))) = ''2024-01-15T12:00:00.000003+00:00''"
  "now_iso_at demo_world (Suc (Suc (Suc (Suc 0)))) = ''2024-01-15T12:00:00.000004+00:00''"
  by code_simp+

lemma demo_started:
  "started_record (demo_world\<lparr>subprocess_run := f\<rparr>) args first_technique empty_state
   = \<lparr>run_id = demo_run_id, technique = ''aws.persistence.iam-backdoor-user'',
      account = arg_account args, region = arg_region args, mode = arg_mode args,
      tactic_filter = arg_tactic args, started_at = ''2024-01-15T12:00:00.000001+00:00'',
      status = ''started'', warmup_at = None, detonated_at = None, cleaned_at = None,
      error = None\<rparr>"
  using demo_clock(2)
  by (simp add: started_record_def demo_world_def empty_state_def first_technique_def demo_run_id_def)


lemma demo_world_fields [simp]:
  "aws_identity demo_world = Inr (''123456789012'', ''arn:aws:iam::123456789012:user/trainer'')"
  "techniques_of demo_world t = Inr demo_catalog"
  "getpid demo_world = 4242"
  by (simp_all add: demo_world_def)

lemma demo_args_fields [simp]:
  "arg_account demo_args = ''123456789012''" "arg_region demo_args = ''us-east-1''"
  "arg_mode demo_args = ''train''" "arg_tactic demo_args = None"
  "dwell_min demo_args = 0" "dwell_max demo_args = 0"
  "allow_repeat demo_args = False" "avoid_last_n demo_args = 5"
  by (simp_all add: demo_args_def)

lemma validate_args_fields [simp]:
  "arg_account validate_args = ''123456789012''" "arg_region validate_args = ''us-east-1''"
  "arg_mode validate_args = ''validate''" "arg_tactic validate_args = None"
  "dwell_min validate_args = 0" "dwell_max validate_args = 0"
  "allow_repeat validate_args = False" "avoid_last_n validate_args = 5"
  by (simp_all add: validate_args_def)

lemma repeat_args_fields [simp]:
  "arg_account repeat_args = ''123456789012''" "arg_region repeat_args = ''us-east-1''"
  "arg_mode repeat_args = ''validate''" "arg_tactic repeat_args = None"
  "dwell_min repeat_args = 0" "dwell_max repeat_args = 0"
  "allow_repeat repeat_args = True" "avoid_last_n repeat_args = 5"
  by (simp_all add: repeat_args_def validate_args_def)

lemma empty_state_fields [simp]:
  "holder_of empty_state = None" "clock empty_state = 0" "trace empty_state = []"
  "load_history empty_state = Inr []" "runs empty_state = (\<lambda>rid. None)"
  by (simp_all add: empty_state_def holder_of_def load_history_def read_history_def)

lemma bad_history_fields [simp]:
  "holder_of bad_history = None" "clock bad_history = 0" "trace bad_history = []"
  "load_history bad_history = Inl (Exn UnicodeDecodeError ''invalid start byte'')"
  by (simp_all add: bad_history_def empty_state_def holder_of_def load_history_def read_history_def caught_def)

lemma demo_catalog_nonempty: "demo_catalog \<noteq> []"
  by (simp add: demo_catalog_def)

lemma all_ok_completes:
  "subprocess_run demo_world cmd env = Completed \<lparr>returncode = 0, stdout = [], stderr = []\<rparr>"
  by (simp add: demo_world_def all_ok_def)

text \<open>A run in validate mode on the empty state, every external command succeeding.\<close>

lemma demo_validate_run:
  "fst (cmd_run demo_world validate_args empty_state) = Inr 0"
  "stored_record (snd (cmd_run demo_world validate_args empty_state)) demo_run_id
   = Some \<lparr>run_id = demo_run_id, technique = ''aws.persistence.iam-backdoor-user'',
           account = ''123456789012'', region = ''us-east-1'', mode = ''validate'',
           tactic_filter = None, started_at = ''2024-01-15T12:00:00.000001+00:00'',
           status = ''cleaned'',
           warmup_at = Some ''2024-01-15T12:00:00.000002+00:00'',
           detonated_at = Some ''2024-01-15T12:00:00.000003+00:00'',
           cleaned_at = Some ''2024-01-15T12:00:00.000004+00:00'', error = None\<rparr>"
  "saved_statuses (trace (snd (cmd_run demo_world validate_args empty_state)))
   = [''started'', ''warmup_complete'', ''cleaned'']"
proof -
  have sel: "select_technique demo_world demo_catalog (\<not> allow_repeat validate_args)
               (avoid_last_n validate_args) empty_state = Inr first_technique"
    using demo_select(1) [of all_ok] by (simp add: demo_world_def)
  have ident: "aws_identity demo_world
               = Inr (arg_account validate_args, ''arn:aws:iam::123456789012:user/trainer'')"
    by (simp add: demo_world_def)
  have cat: "techniques_of demo_world (arg_tactic validate_args) = Inr demo_catalog"
    by (simp add: demo_world_def)
  have dwell: "dwell_min validate_args \<le> dwell_max validate_args"
    by simp
  have zero: "returncode \<lparr>returncode = 0, stdout = [], stderr = []\<rparr> = 0"
    by simp
  have hist: "load_history empty_state = Inr []"
    by simp
  note run = run_detonated [OF empty_state_fields(1) ident cat demo_catalog_nonempty sel
      all_ok_completes zero dwell all_ok_completes zero]
  have started: "started_record demo_world validate_args first_technique empty_state
   = \<lparr>run_id = demo_run_id, technique = ''aws.persistence.iam-backdoor-user'',
      account = ''123456789012'', region = ''us-east-1'', mode = ''validate'',
      tactic_filter = None, started_at = ''2024-01-15T12:00:00.000001+00:00'',
      status = ''started'', warmup_at = None, detonated_at = None, cleaned_at = None,
      error = None\<rparr>"
    using demo_started [of all_ok validate_args] by (simp add: demo_world_def)
  have final: "detonated_record demo_world validate_args
      (started_record demo_world validate_args first_technique empty_state)
      (Suc (Suc (clock empty_state)))
   = \<lparr>run_id = demo_run_id, technique = ''aws.persistence.iam-backdoor-user'',
      account = ''123456789012'', region = ''us-east-1'', mode = ''validate'',
      tactic_filter = None, started_at = ''2024-01-15T12:00:00.000001+00:00'',
      status = ''cleaned'',
      warmup_at = Some ''2024-01-15T12:00:00.000002+00:00'',
      detonated_at = Some ''2024-01-15T12:00:00.000003+00:00'',
      cleaned_at = Some ''2024-01-15T12:00:00.000004+00:00'', error = None\<rparr>"
    unfolding started by (simp add: detonated_record_def demo_clock)
  show "fst (cmd_run demo_world validate_args empty_state) = Inr 0"
    using hist by (rule run(1))
  from run(2) [OF hist] show "stored_record (snd (cmd_run demo_world validate_args empty_state)) demo_run_id
   = Some \<lparr>run_id = demo_run_id, technique = ''aws.persistence.iam-backdoor-user'',
           account = ''123456789012'', region = ''us-east-1'', mode = ''validate'',
           tactic_filter = None, started_at = ''2024-01-15T12:00:00.000001+00:00'',
           status = ''cleaned'',
           warmup_at = Some ''2024-01-15T12:00:00.000002+00:00'',
           detonated_at = Some ''2024-01-15T12:00:00.000003+00:00'',
           cleaned_at = Some ''2024-01-15T12:00:00.000004+00:00'', error = None\<rparr>"
    unfolding final by (simp add: stored_record_def)
  from run(3) [OF hist]
  show "saved_statuses (trace (snd (cmd_run demo_world validate_args empty_state)))
   = [''started'', ''warmup_complete'', ''cleaned'']"
    by (simp add: detonated_status_def)
qed


section \<open>The claims on the run command\<close>

lemma demo_history_failure_run:
  "saved_statuses (trace (snd (cmd_run demo_world repeat_args bad_history)))
   = [''started'', ''warmup_complete'', ''cleaned'', ''failed'']"
proof -
  have sel: "select_technique demo_world demo_catalog (\<not> allow_repeat repeat_args)
               (avoid_last_n repeat_args) bad_history = Inr first_technique"
    using demo_select(2) [of all_ok] by (simp add: demo_world_def)
  have ident: "aws_identity demo_world
               = Inr (arg_account repeat_args, ''arn:aws:iam::123456789012:user/trainer'')"
    by simp
  have cat: "techniques_of demo_world (arg_tactic repeat_args) = Inr demo_catalog"
    by simp
  have dwell: "dwell_min repeat_args \<le> dwell_max repeat_args"
    by simp
  have zero: "returncode \<lparr>returncode = 0, stdout = [], stderr = []\<rparr> = 0"
    by simp
  from run_detonated(7) [OF bad_history_fields(1) ident cat demo_catalog_nonempty sel
      all_ok_completes zero dwell all_ok_completes zero bad_history_fields(4)]
  show ?thesis
    by (simp add: detonated_status_def)
qed

lemma demo_train_run:
  "saved_statuses (trace (snd (cmd_run demo_world demo_args empty_state)))
   = [''started'', ''warmup_complete'', ''detonated'']"
proof -
  have sel: "select_technique demo_world demo_catalog (\<not> allow_repeat demo_args)
               (avoid_last_n demo_args) empty_state = Inr first_technique"
    using demo_select(1) [of all_ok] by (simp add: demo_world_def)
  have ident: "aws_identity demo_world
               = Inr (arg_account demo_args, ''arn:aws:iam::123456789012:user/trainer'')"
    by simp
  have cat: "techniques_of demo_world (arg_tactic demo_args) = Inr demo_catalog"
    by simp
  have dwell: "dwell_min demo_args \<le> dwell_max demo_args"
    by simp
  have zero: "returncode \<lparr>returncode = 0, stdout = [], stderr = []\<rparr> = 0"
    by simp
  from run_detonated(3) [OF empty_state_fields(1) ident cat demo_catalog_nonempty sel
      all_ok_completes zero dwell all_ok_completes zero empty_state_fields(4)]
  show ?thesis
    by (simp add: detonated_status_def)
qed

text \<open>
  C1, as stated, fails. A successful run in validate mode persists \<open>started\<close>,
  \<open>warmup_complete\<close>, \<open>cleaned\<close>: \<open>DETONATED\<close> and \<open>CLEANED\<close> are set one after the
  other and written by one \<open>save\<close>. And \<open>FAILED\<close> is reached after \<open>CLEANED\<close>: with
  \<open>--allow-repeat\<close> the history file is first read after the detonation, and when it
  does not decode the handler \<open>except Exception\<close> marks the cleaned record as failed.
\<close>

theorem run_statuses_off_path:
  "saved_statuses (trace (snd (cmd_run demo_world validate_args empty_state)))
     = [''started'', ''warmup_complete'', ''cleaned'']
   \<and> \<not> claimed_sequence (saved_statuses (trace (snd (cmd_run demo_world validate_args empty_state))))
   \<and> saved_statuses (trace (snd (cmd_run demo_world repeat_args bad_history)))
     = [''started'', ''warmup_complete'', ''cleaned'', ''failed'']
   \<and> \<not> claimed_sequence (saved_statuses (trace (snd (cmd_run demo_world repeat_args bad_history))))"
  by (simp add: demo_validate_run(3) demo_history_failure_run claimed_sequence_def lifecycle_path_def)

text \<open>
  C1, amended. The statuses that a run persists, in order, are one of: nothing (no record
  was created); \<open>STARTED\<close>, \<open>FAILED\<close>; \<open>STARTED\<close>, \<open>WARMUP_COMPLETE\<close>, \<open>FAILED\<close>;
  \<open>STARTED\<close>, \<open>WARMUP_COMPLETE\<close>, \<open>D\<close>; or \<open>STARTED\<close>, \<open>WARMUP_COMPLETE\<close>, \<open>D\<close>,
  \<open>FAILED\<close>, where \<open>D\<close> is \<open>CLEANED\<close> in validate mode and \<open>DETONATED\<close> otherwise.
\<close>

theorem run_persisted_statuses:
  "\<exists>xs \<in> set (persisted_sequences args).
     saved_statuses (trace (snd (cmd_run w args s))) = saved_statuses (trace s) @ xs"
  by (rule cmd_run_saved)

theorem run_persisted_statuses_witness:
  "saved_statuses (trace (snd (cmd_run demo_world demo_args empty_state)))
     = [''started'', ''warmup_complete'', ''detonated'']
   \<and> [''started'', ''warmup_complete'', ''detonated''] \<in> set (persisted_sequences demo_args)"
proof -
  from run_persisted_statuses [of demo_args demo_world empty_state]
  obtain xs where "xs \<in> set (persisted_sequences demo_args)"
    and "saved_statuses (trace (snd (cmd_run demo_world demo_args empty_state)))
         = saved_statuses (trace empty_state) @ xs"
    by blast
  with demo_train_run show ?thesis
    by simp
qed


text \<open>
  C2, as stated, fails: \<open>detonated_at\<close> and \<open>cleaned_at\<close> are two readings of the clock,
  one after the other. On a clock that advances between the two, the final record of a
  successful run in validate mode has status \<open>cleaned\<close> and a \<open>cleaned_at\<close> that differs
  from \<open>detonated_at\<close>.
\<close>

theorem validate_timestamps_differ:
  "map_option status (stored_record (snd (cmd_run demo_world validate_args empty_state)) demo_run_id)
     = Some ''cleaned''
   \<and> map_option detonated_at
         (stored_record (snd (cmd_run demo_world validate_args empty_state)) demo_run_id)
       = Some (Some ''2024-01-15T12:00:00.000003+00:00'')
   \<and> map_option cleaned_at
         (stored_record (snd (cmd_run demo_world validate_args empty_state)) demo_run_id)
       = Some (Some ''2024-01-15T12:00:00.000004+00:00'')
   \<and> map_option cleaned_at
         (stored_record (snd (cmd_run demo_world validate_args empty_state)) demo_run_id)
       \<noteq> map_option detonated_at
           (stored_record (snd (cmd_run demo_world validate_args empty_state)) demo_run_id)"
  by (simp add: demo_validate_run(2))

text \<open>
  C2, amended. For every run in validate mode that reaches the detonation (the lock is
  free, the account matches, the catalog is not empty, a technique is selected, the warmup
  exits with status 0, the dwell bounds are in order), whose detonation exits with status 0
  and whose history file loads, \<open>cmd_run\<close> returns 0 and the final record has status
  \<open>cleaned\<close>; \<open>detonated_at\<close> is the reading of the clock taken when the detonation
  returned and \<open>cleaned_at\<close> is the next reading of the clock.
\<close>

theorem validate_run_cleaned:
  assumes "holder_of s = None"
    and "aws_identity w = Inr (arg_account args, arn)"
    and "techniques_of w (arg_tactic args) = Inr techniques" and "techniques \<noteq> []"
    and "select_technique w techniques (\<not> allow_repeat args) (avoid_last_n args) s = Inr tech"
    and "arg_mode args = mode_value VALIDATE"
    and "subprocess_run w (warmup_cmd tech) (region_env (arg_region args)) = Completed p1"
    and "returncode p1 = 0"
    and "dwell_min args \<le> dwell_max args"
    and "subprocess_run w (detonate_cmd args tech) (region_env (arg_region args)) = Completed p2"
    and "returncode p2 = 0"
    and "load_history s = Inr h"
  shows "fst (cmd_run w args s) = Inr 0
    \<and> stored_record (snd (cmd_run w args s)) (run_id (started_record w args tech s))
        = Some ((started_record w args tech s)
                  \<lparr>warmup_at := Some (now_iso_at w (clock s + 2)),
                   detonated_at := Some (now_iso_at w (clock s + 3)),
                   cleaned_at := Some (now_iso_at w (clock s + 4)),
                   status := status_value CLEANED\<rparr>)"
proof -
  note run = run_detonated [OF assms(1-5) assms(7-11)]
  have "detonated_record w args (started_record w args tech s) (Suc (Suc (clock s)))
      = (started_record w args tech s)
          \<lparr>warmup_at := Some (now_iso_at w (clock s + 2)),
           detonated_at := Some (now_iso_at w (clock s + 3)),
           cleaned_at := Some (now_iso_at w (clock s + 4)),
           status := status_value CLEANED\<rparr>"
    using assms(6) by (simp add: detonated_record_def eval_nat_numeral)
  with run(1) [OF assms(12)] run(2) [OF assms(12)] show ?thesis
    by (simp add: stored_record_def)
qed

theorem validate_run_cleaned_witness:
  "fst (cmd_run demo_world validate_args empty_state) = Inr 0
   \<and> stored_record (snd (cmd_run demo_world validate_args empty_state))
        (run_id (started_record demo_world validate_args first_technique empty_state))
      = Some ((started_record demo_world validate_args first_technique empty_state)
                \<lparr>warmup_at := Some (now_iso_at demo_world (clock empty_state + 2)),
                 detonated_at := Some (now_iso_at demo_world (clock empty_state + 3)),
                 cleaned_at := Some (now_iso_at demo_world (clock empty_state + 4)),
                 status := status_value CLEANED\<rparr>)
   \<and> holder_of empty_state = None
   \<and> arg_mode validate_args = mode_value VALIDATE
   \<and> select_technique demo_world demo_catalog (\<not> allow_repeat validate_args)
        (avoid_last_n validate_args) empty_state = Inr first_technique
   \<and> subprocess_run demo_world (detonate_cmd validate_args first_technique)
        (region_env (arg_region validate_args))
      = Completed \<lparr>returncode = 0, stdout = [], stderr = []\<rparr>"
proof -
  have sel: "select_technique demo_world demo_catalog (\<not> allow_repeat validate_args)
               (avoid_last_n validate_args) empty_state = Inr first_technique"
    using demo_select(1) [of all_ok] by (simp add: demo_world_def)
  have ident: "aws_identity demo_world
               = Inr (arg_account validate_args, ''arn:aws:iam::123456789012:user/trainer'')"
    by (simp add: demo_world_def)
  have cat: "techniques_of demo_world (arg_tactic validate_args) = Inr demo_catalog"
    by (simp add: demo_world_def)
  have mode: "arg_mode validate_args = mode_value VALIDATE"
    by simp
  have dwell: "dwell_min validate_args \<le> dwell_max validate_args"
    by simp
  have zero: "returncode \<lparr>returncode = 0, stdout = [], stderr = []\<rparr> = 0"
    by simp
  have hist: "load_history empty_state = Inr []"
    by simp
  from validate_run_cleaned [OF empty_state_fields(1) ident cat demo_catalog_nonempty sel mode
      all_ok_completes zero dwell all_ok_completes zero hist]
    sel mode all_ok_completes [of "detonate_cmd validate_args first_technique"
      "region_env (arg_region validate_args)"]
  show ?thesis
    by (simp only: empty_state_fields(1) simp_thms)
qed


text \<open>
  C4. When the warmup command raises (it exits with a status other than 0, or it cannot
  be launched), \<open>cmd_run\<close> returns 1, the record is saved with status \<open>failed\<close> and an
  \<open>error\<close> that holds the message of the exception, and the lock is free again, so
  that a new \<open>acquire\<close> succeeds. On every path \<open>cmd_run\<close> leaves the lock with the
  holder it had before: a run that took the lock has released it.
\<close>

theorem warmup_failure_recorded:
  "holder_of (snd (cmd_run w args s)) = holder_of s
   \<and> (holder_of s = None \<longrightarrow> fst (acquire w' (snd (cmd_run w args s))))
   \<and> (holder_of s = None \<longrightarrow>
      aws_identity w = Inr (arg_account args, arn) \<longrightarrow>
      techniques_of w (arg_tactic args) = Inr techniques \<longrightarrow> techniques \<noteq> [] \<longrightarrow>
      select_technique w techniques (\<not> allow_repeat args) (avoid_last_n args) s = Inr tech \<longrightarrow>
      fst (run_cmd w (warmup_cmd tech) True (region_env (arg_region args)) s) = Inl e \<longrightarrow>
        fst (cmd_run w args s) = Inr 1
        \<and> stored_record (snd (cmd_run w args s)) (run_id (started_record w args tech s))
            = Some ((started_record w args tech s)
                      \<lparr>status := status_value FAILED,
                       error := Some (if kind e = RuntimeError
                                      then ''Warmup failed: '' @ message e else message e)\<rparr>)
        \<and> saved_statuses (trace (snd (cmd_run w args s)))
            = saved_statuses (trace s) @ [status_value STARTED, status_value FAILED])"
proof (intro conjI impI)
  show "holder_of (snd (cmd_run w args s)) = holder_of s"
    by (rule cmd_run_holder)
  then show "fst (acquire w' (snd (cmd_run w args s)))" if "holder_of s = None"
    using that by (simp add: acquire_iff)
next
  assume free: "holder_of s = None"
    and ident: "aws_identity w = Inr (arg_account args, arn)"
    and cat: "techniques_of w (arg_tactic args) = Inr techniques" "techniques \<noteq> []"
    and sel: "select_technique w techniques (\<not> allow_repeat args) (avoid_last_n args) s = Inr tech"
    and fail: "fst (run_cmd w (warmup_cmd tech) True (region_env (arg_region args)) s) = Inl e"
  note run = run_warmup_failure [OF free ident cat sel fail]
  show "fst (cmd_run w args s) = Inr 1"
    by (rule run(1))
  show "stored_record (snd (cmd_run w args s)) (run_id (started_record w args tech s))
            = Some ((started_record w args tech s)
                      \<lparr>status := status_value FAILED,
                       error := Some (if kind e = RuntimeError
                                      then ''Warmup failed: '' @ message e else message e)\<rparr>)"
    unfolding stored_record_def run(2) by simp
  show "saved_statuses (trace (snd (cmd_run w args s)))
            = saved_statuses (trace s) @ [status_value STARTED, status_value FAILED]"
    by (rule run(3))
qed

theorem warmup_failure_recorded_witness:
  "holder_of empty_state = None
   \<and> fst (run_cmd (demo_world\<lparr>subprocess_run := fails_on ''warmup''\<rparr>)
           (warmup_cmd first_technique) True (region_env (arg_region demo_args)) empty_state)
      = Inl (Exn RuntimeError
              (''Command failed: stratus warmup aws.persistence.iam-backdoor-user''
               @ [NL] @ ''stderr: boom''))
   \<and> fst (cmd_run (demo_world\<lparr>subprocess_run := fails_on ''warmup''\<rparr>) demo_args empty_state) = Inr 1
   \<and> stored_record
        (snd (cmd_run (demo_world\<lparr>subprocess_run := fails_on ''warmup''\<rparr>) demo_args empty_state))
        demo_run_id
      = Some \<lparr>run_id = demo_run_id, technique = ''aws.persistence.iam-backdoor-user'',
              account = ''123456789012'', region = ''us-east-1'', mode = ''train'',
              tactic_filter = None, started_at = ''2024-01-15T12:00:00.000001+00:00'',
              status = ''failed'', warmup_at = None, detonated_at = None, cleaned_at = None,
              error = Some (''Warmup failed: Command failed: stratus warmup aws.persistence.iam-backdoor-user''
                            @ [NL] @ ''stderr: boom'')\<rparr>
   \<and> holder_of
        (snd (cmd_run (demo_world\<lparr>subprocess_run := fails_on ''warmup''\<rparr>) demo_args empty_state))
      = None
   \<and> fst (acquire demo_world
        (snd (cmd_run (demo_world\<lparr>subprocess_run := fails_on ''warmup''\<rparr>) demo_args empty_state)))"
proof -
  let ?w = "demo_world\<lparr>subprocess_run := fails_on ''warmup''\<rparr>"
  let ?e = "Exn RuntimeError
              (''Command failed: stratus warmup aws.persistence.iam-backdoor-user''
               @ [NL] @ ''stderr: boom'')"
  have free: "holder_of empty_state = None"
    by simp
  have ident: "aws_identity ?w
               = Inr (arg_account demo_args, ''arn:aws:iam::123456789012:user/trainer'')"
    by simp
  have cat: "techniques_of ?w (arg_tactic demo_args) = Inr demo_catalog"
    by simp
  have sel: "select_technique ?w demo_catalog (\<not> allow_repeat demo_args)
               (avoid_last_n demo_args) empty_state = Inr first_technique"
    using demo_select(1) [of "fails_on ''warmup''"] by simp
  have fail: "fst (run_cmd ?w (warmup_cmd first_technique) True
                     (region_env (arg_region demo_args)) empty_state) = Inl ?e"
    by (simp add: run_cmd_def fails_on_def warmup_cmd_def first_technique_def)
  have started: "started_record ?w demo_args first_technique empty_state
   = \<lparr>run_id = demo_run_id, technique = ''aws.persistence.iam-backdoor-user'',
      account = ''123456789012'', region = ''us-east-1'', mode = ''train'',
      tactic_filter = None, started_at = ''2024-01-15T12:00:00.000001+00:00'',
      status = ''started'', warmup_at = None, detonated_at = None, cleaned_at = None,
      error = None\<rparr>"
    using demo_started [of "fails_on ''warmup''" demo_args] by simp
  note inst = warmup_failure_recorded [of ?w demo_args empty_state demo_world
      "''arn:aws:iam::123456789012:user/trainer''" demo_catalog first_technique ?e]
  from inst free have released: "holder_of (snd (cmd_run ?w demo_args empty_state)) = None"
    and again: "fst (acquire demo_world (snd (cmd_run ?w demo_args empty_state)))"
    by simp_all
  from inst free ident cat demo_catalog_nonempty sel fail
  have code: "fst (cmd_run ?w demo_args empty_state) = Inr 1"
    and stored: "stored_record (snd (cmd_run ?w demo_args empty_state))
            (run_id (started_record ?w demo_args first_technique empty_state))
        = Some ((started_record ?w demo_args first_technique empty_state)
                  \<lparr>status := status_value FAILED,
                   error := Some (if kind ?e = RuntimeError
                                  then ''Warmup failed: '' @ message ?e else message ?e)\<rparr>)"
    by blast+
  from stored have "stored_record (snd (cmd_run ?w demo_args empty_state)) demo_run_id
      = Some \<lparr>run_id = demo_run_id, technique = ''aws.persistence.iam-backdoor-user'',
              account = ''123456789012'', region = ''us-east-1'', mode = ''train'',
              tactic_filter = None, started_at = ''2024-01-15T12:00:00.000001+00:00'',
              status = ''failed'', warmup_at = None, detonated_at = None, cleaned_at = None,
              error = Some (''Warmup failed: Command failed: stratus warmup aws.persistence.iam-backdoor-user''
                            @ [NL] @ ''stderr: boom'')\<rparr>"
    unfolding started by simp
  with free fail code released again show ?thesis
    by blast
qed


end
